theory Spec2Isabelle
  imports Complex_Main "HOL-Library.Sublist" "HOL-Library.Log_Nat"
begin

section \<open>Data model of the Wordle solver (src/wordle-solver.js)\<close>

text \<open>
  Words are JavaScript strings, modelled as \<open>string\<close> (a list of characters, as
  \<open>word.split('')\<close> produces). A feedback symbol is one of the three string tags
  \<open>'green'\<close>, \<open>'yellow'\<close>, \<open>'grey'\<close>; a feedback pattern is an array of them.
  JavaScript numbers are IEEE 754 doubles; the section on numbers below models them.
\<close>

datatype color = Green | Yellow | Grey

text \<open>
  Reading an array or a string at an index: JavaScript yields \<open>undefined\<close> out of range,
  which is \<open>None\<close> here, so that \<open>undefined === undefined\<close> is the equality of \<open>None\<close>
  with itself.
\<close>

definition js_index :: "'a list \<Rightarrow> nat \<Rightarrow> 'a option" where
  "js_index xs i = (if i < length xs then Some (xs ! i) else None)"

text \<open>\<open>r === 'yellow' || r === 'green'\<close> on an entry of a result array.\<close>

definition yellow_or_green :: "color option \<Rightarrow> bool" where
  "yellow_or_green r = (r = Some Yellow \<or> r = Some Green)"

text \<open>
  \<open>word.includes(letter)\<close> on a string: a letter is searched as a character; the
  value \<open>undefined\<close> is converted to the text \<open>undefined\<close> and searched as a substring.
\<close>

definition includes_letter :: "string \<Rightarrow> char option \<Rightarrow> bool" where
  "includes_letter word l =
     (case l of Some c \<Rightarrow> c \<in> set word | None \<Rightarrow> sublist ''undefined'' word)"

text \<open>
  \<open>[...new Set(xs)]\<close>: the distinct elements of \<open>xs\<close> in the order of their first
  occurrence.
\<close>

fun js_set :: "'a list \<Rightarrow> 'a list" where
  "js_set [] = []"
| "js_set (x # xs) = x # filter (\<lambda>y. y \<noteq> x) (js_set xs)"

section \<open>JavaScript numbers\<close>

text \<open>
  A finite double is modelled as the rational it denotes, and an operation on doubles as
  the exact operation followed by rounding to the nearest double, a tie going to the even
  significand, as IEEE 754 prescribes for \<open>+\<close>, \<open>-\<close>, \<open>*\<close> and \<open>/\<close>.
  \<open>ilog2 x\<close> is the binary exponent of \<open>x\<close>, the \<open>e\<close> with \<open>2^e \<le> |x| < 2^(e+1)\<close>.
  A double of that exponent is a multiple of \<open>2^(e - 52)\<close> (53 significant bits); below
  the exponent \<open>-1022\<close> the doubles are the multiples of \<open>2^(-1074)\<close> (subnormals).
  Numbers of magnitude \<open>2^1024\<close> and more, which overflow to \<open>Infinity\<close>, and \<open>NaN\<close> are
  not modelled: the scoring code divides by a length above one only, and a JavaScript
  array has fewer than \<open>2^32\<close> elements, so that every number it computes is far below
  that bound. An array length is an integer below \<open>2^32\<close>, hence a double as it is.
\<close>

definition ilog2 :: "rat \<Rightarrow> int" where
  "ilog2 x =
     (if 1 \<le> \<bar>x\<bar> then bitlen \<lfloor>\<bar>x\<bar>\<rfloor> - 1 else - bitlen (\<lceil>1 / \<bar>x\<bar>\<rceil> - 1))"

text \<open>Rounding to the nearest integer, a tie going to the even one.\<close>

definition round_even :: "rat \<Rightarrow> int" where
  "round_even r =
     (let f = \<lfloor>r\<rfloor>; d = r - of_int f
      in if d < 1 / 2 then f else if 1 / 2 < d then f + 1 else if even f then f else f + 1)"

text \<open>Rounding a rational to the nearest double.\<close>

definition fl :: "rat \<Rightarrow> rat" where
  "fl x =
     (if x = 0 then 0
      else let e = max (ilog2 x) (- 1022); q = 2 powi (e - 52)
           in of_int (round_even (x / q)) * q)"

definition dadd :: "rat \<Rightarrow> rat \<Rightarrow> rat" where
  "dadd x y = fl (x + y)"

definition dsub :: "rat \<Rightarrow> rat \<Rightarrow> rat" where
  "dsub x y = fl (x - y)"

definition dmul :: "rat \<Rightarrow> rat \<Rightarrow> rat" where
  "dmul x y = fl (x * y)"

definition ddiv :: "rat \<Rightarrow> rat \<Rightarrow> rat" where
  "ddiv x y = fl (x / y)"

text \<open>
  \<open>Math.round\<close> of a double: the nearest integer, a tie going up; the result is exact.
\<close>

definition js_round :: "rat \<Rightarrow> int" where
  "js_round x = \<lfloor>x + 1 / 2\<rfloor>"

section \<open>The pattern evaluator: getResultPattern\<close>

text \<open>
  The state of both passes is the result array together with \<open>usedAnswerIndices\<close>.
  First pass, body of the loop at index \<open>i\<close>: a position whose letters agree is marked
  green and its answer index is consumed.
\<close>

definition mark_green :: "string \<Rightarrow> string \<Rightarrow> nat \<Rightarrow> color list \<times> nat set \<Rightarrow> color list \<times> nat set" where
  "mark_green guess answer i st =
     (if js_index guess i = js_index answer i
      then ((fst st)[i := Green], insert i (snd st))
      else st)"

text \<open>
  Second pass, body of the loop at index \<open>i\<close>: a position still grey looks for the first
  answer index \<open>j\<close> not yet consumed that holds its letter; the inner loop stops at the
  first hit (\<open>break\<close>).
\<close>

definition mark_yellow :: "string \<Rightarrow> string \<Rightarrow> nat \<Rightarrow> color list \<times> nat set \<Rightarrow> color list \<times> nat set" where
  "mark_yellow guess answer i st =
     (if js_index (fst st) i = Some Grey
      then (case find (\<lambda>j. j \<notin> snd st \<and> js_index answer j = js_index guess i) [0..<5] of
              Some j \<Rightarrow> ((fst st)[i := Yellow], insert j (snd st))
            | None \<Rightarrow> st)
      else st)"

definition getResultPattern :: "string \<Rightarrow> string \<Rightarrow> color list" where
  "getResultPattern guess answer =
     fst (fold (mark_yellow guess answer) [0..<5]
           (fold (mark_green guess answer) [0..<5] ([Grey, Grey, Grey, Grey, Grey], {})))"

section \<open>The constraint filter: isWordCompatible\<close>

text \<open>
  \<open>result.some((r, idx) => (r === 'yellow' || r === 'green') && guessLetters[idx] === guessLetter)\<close>
\<close>

definition hasYellowOrGreen :: "string \<Rightarrow> color list \<Rightarrow> char option \<Rightarrow> bool" where
  "hasYellowOrGreen guess result guessLetter =
     list_ex (\<lambda>idx. yellow_or_green (js_index result idx) \<and> js_index guess idx = guessLetter)
       [0..<length result]"

text \<open>The first loop of \<open>isWordCompatible\<close> at position \<open>i\<close>: False where the source returns false.\<close>

definition position_ok :: "string \<Rightarrow> string \<Rightarrow> color list \<Rightarrow> nat \<Rightarrow> bool" where
  "position_ok word guess result i =
     (case js_index result i of
        Some Green \<Rightarrow> js_index word i = js_index guess i
      | Some Yellow \<Rightarrow>
          js_index word i \<noteq> js_index guess i \<and> includes_letter word (js_index guess i)
      | Some Grey \<Rightarrow>
          \<not> (\<not> hasYellowOrGreen guess result (js_index guess i)
             \<and> includes_letter word (js_index guess i))
      | None \<Rightarrow> True)"

text \<open>
  The second loop at position \<open>i\<close>: for a yellow position, the word must hold the letter
  at least as often as the guess has it marked yellow or green.
\<close>

definition guessCount :: "string \<Rightarrow> color list \<Rightarrow> char option \<Rightarrow> nat" where
  "guessCount guess result letter =
     length (filter (\<lambda>idx. Some (guess ! idx) = letter \<and> yellow_or_green (js_index result idx))
               [0..<length guess])"

definition wordCount :: "string \<Rightarrow> char option \<Rightarrow> nat" where
  "wordCount word letter = length (filter (\<lambda>l. Some l = letter) word)"

definition count_ok :: "string \<Rightarrow> string \<Rightarrow> color list \<Rightarrow> nat \<Rightarrow> bool" where
  "count_ok word guess result i =
     (if js_index result i = Some Yellow
      then \<not> wordCount word (js_index guess i) < guessCount guess result (js_index guess i)
      else True)"

definition isWordCompatible :: "string \<Rightarrow> string \<Rightarrow> color list \<Rightarrow> bool" where
  "isWordCompatible word guess result =
     (list_all (position_ok word guess result) [0..<5]
      \<and> list_all (count_ok word guess result) [0..<5])"

section \<open>Session state, letter tracking and submission\<close>

text \<open>
  The fields of the \<open>WordleSolver\<close> object. The three letter sets hold values read from
  the guess by index, hence \<open>char option\<close>. A history entry is the pair of \<open>word\<close> and
  \<open>result\<close>.
\<close>

record session =
  answerWords :: "string list"
  allWords :: "string list"
  possibleWords :: "string list"
  guessHistory :: "(string \<times> color list) list"
  currentGuess :: string
  currentResult :: "color list"
  testedLetters :: "char option set"
  knownLetters :: "char option set"
  excludedLetters :: "char option set"

text \<open>
  \<open>result.some((r, idx) => idx !== i && letters[idx] === letter && (r === 'green' || r === 'yellow'))\<close>
\<close>

definition appearsElsewhere :: "string \<Rightarrow> color list \<Rightarrow> nat \<Rightarrow> bool" where
  "appearsElsewhere guess result i =
     list_ex (\<lambda>idx. idx \<noteq> i \<and> js_index guess idx = js_index guess i
                    \<and> yellow_or_green (js_index result idx))
       [0..<length result]"

text \<open>The body of the loop of \<open>updateLetterTracking\<close> at index \<open>i\<close>.\<close>

definition track_letter :: "string \<Rightarrow> color list \<Rightarrow> nat \<Rightarrow> session \<Rightarrow> session" where
  "track_letter guess result i s =
     (let letter = js_index guess i;
          s1 = s\<lparr>testedLetters := insert letter (testedLetters s)\<rparr>
      in if yellow_or_green (js_index result i)
         then s1\<lparr>knownLetters := insert letter (knownLetters s1)\<rparr>
         else if js_index result i = Some Grey
         then (if \<not> appearsElsewhere guess result i
               then s1\<lparr>excludedLetters := insert letter (excludedLetters s1)\<rparr>
               else s1)
         else s1)"

definition updateLetterTracking :: "string \<Rightarrow> color list \<Rightarrow> session \<Rightarrow> session" where
  "updateLetterTracking guess result s = fold (track_letter guess result) [0..<5] s"

definition filterWords :: "string \<Rightarrow> color list \<Rightarrow> session \<Rightarrow> session" where
  "filterWords guess result s =
     s\<lparr>possibleWords := filter (\<lambda>word. isWordCompatible word guess result) (possibleWords s)\<rparr>"

definition resetInput :: "session \<Rightarrow> session" where
  "resetInput s = s\<lparr>currentGuess := [], currentResult := [Grey, Grey, Grey, Grey, Grey]\<rparr>"

text \<open>
  The two early returns of \<open>submitGuess\<close>, each after \<open>showErrorMessage\<close>:
  \<open>InvalidLength\<close> stands for the message "Please enter a 5-letter word",
  \<open>WordNotAllowed\<close> for the message that the word is not an allowed word.
\<close>

datatype error = InvalidLength | WordNotAllowed

definition submitGuess :: "session \<Rightarrow> error option \<times> session" where
  "submitGuess s =
     (if length (currentGuess s) \<noteq> 5 then (Some InvalidLength, s)
      else if currentGuess s \<notin> set (allWords s) then (Some WordNotAllowed, s)
      else (None,
            resetInput
              (filterWords (currentGuess s) (currentResult s)
                (updateLetterTracking (currentGuess s) (currentResult s)
                  (s\<lparr>guessHistory := guessHistory s @ [(currentGuess s, currentResult s)]\<rparr>)))))"

definition resetGame :: "session \<Rightarrow> session" where
  "resetGame s =
     resetInput (s\<lparr>possibleWords := answerWords s, guessHistory := [],
                   testedLetters := {}, knownLetters := {}, excludedLetters := {}\<rparr>)"

text \<open>The object after the constructor and \<open>loadWords\<close>, for the two loaded word lists.\<close>

definition initial :: "string list \<Rightarrow> string list \<Rightarrow> session" where
  "initial answers allowed =
     \<lparr>answerWords = answers, allWords = allowed, possibleWords = answers,
      guessHistory = [], currentGuess = [], currentResult = [Grey, Grey, Grey, Grey, Grey],
      testedLetters = {}, knownLetters = {}, excludedLetters = {}\<rparr>"

text \<open>
  What a user does to the session: fill in a guess and its feedback and press submit, or
  press reset. A session is the run of a list of such actions from the initial state.
\<close>

datatype action = Submit string "color list" | Reset

fun step :: "session \<Rightarrow> action \<Rightarrow> session" where
  "step s (Submit guess result) =
     snd (submitGuess (s\<lparr>currentGuess := guess, currentResult := result\<rparr>))"
| "step s Reset = resetGame s"

definition run :: "session \<Rightarrow> action list \<Rightarrow> session" where
  "run s acts = foldl step s acts"

section \<open>The guess scorer\<close>

text \<open>
  The weights are the literals \<open>1.5\<close>, \<open>1.0\<close> and \<open>0.4\<close>; the last is not a double and
  stands for the double nearest to it.
\<close>

definition calculateExpectedInformation :: "color list \<Rightarrow> rat" where
  "calculateExpectedInformation pattern =
     fold (\<lambda>result information.
             dadd information
               (case result of Green \<Rightarrow> 3 / 2 | Yellow \<Rightarrow> 1 | Grey \<Rightarrow> fl (2 / 5)))
       pattern 0"

text \<open>\<open>pattern.join('')\<close>, the key of a group in the \<open>Map\<close>.\<close>

fun color_name :: "color \<Rightarrow> string" where
  "color_name Green = ''green''"
| "color_name Yellow = ''yellow''"
| "color_name Grey = ''grey''"

definition pattern_key :: "color list \<Rightarrow> string" where
  "pattern_key pattern = concat (map color_name pattern)"

text \<open>
  The \<open>Map\<close> of result groups keeps its keys in insertion order: an association list.
  \<open>group_add\<close> is the three statements \<open>has\<close>, \<open>set(key, [])\<close> and \<open>get(key).push(answer)\<close>.
\<close>

fun group_add :: "string \<Rightarrow> string \<Rightarrow> (string \<times> string list) list \<Rightarrow> (string \<times> string list) list" where
  "group_add key answer [] = [(key, [answer])]"
| "group_add key answer ((k, grp) # rest) =
     (if k = key then (k, grp @ [answer]) # rest
      else (k, grp) # group_add key answer rest)"

definition resultGroups :: "string \<Rightarrow> string list \<Rightarrow> (string \<times> string list) list" where
  "resultGroups guess words =
     fold (\<lambda>answer groups. group_add (pattern_key (getResultPattern guess answer)) answer groups)
       words []"

text \<open>The loop \<open>resultGroups.forEach\<close> that accumulates \<open>expectedRemaining\<close>.\<close>

definition sum_groups :: "nat \<Rightarrow> (string \<times> string list) list \<Rightarrow> rat" where
  "sum_groups n groups =
     fold (\<lambda>(key, grp) expectedRemaining.
             dadd expectedRemaining
               (dmul (ddiv (of_nat (length grp)) (of_nat n)) (of_nat (length grp))))
       groups 0"

definition calculateExpectedRemainingWords :: "string \<Rightarrow> session \<Rightarrow> rat" where
  "calculateExpectedRemainingWords guess s =
     (if length (possibleWords s) \<le> 1 then of_nat (length (possibleWords s))
      else ddiv
             (of_int (js_round
                (dmul (sum_groups (length (possibleWords s)) (resultGroups guess (possibleWords s)))
                   10)))
             10)"

text \<open>
  The first loop of \<open>calculateExpectedValue\<close> builds the groups and adds up
  \<open>totalInformation\<close> in the same pass.
\<close>

definition groups_and_information :: "string \<Rightarrow> string list \<Rightarrow> (string \<times> string list) list \<times> rat" where
  "groups_and_information guess words =
     fold (\<lambda>answer (groups, totalInformation).
             (group_add (pattern_key (getResultPattern guess answer)) answer groups,
              dadd totalInformation (calculateExpectedInformation (getResultPattern guess answer))))
       words ([], 0)"

definition calculateExpectedValue :: "string \<Rightarrow> session \<Rightarrow> rat" where
  "calculateExpectedValue guess s =
     (if length (possibleWords s) \<le> 1 then 0
      else
        let n = length (possibleWords s);
            (groups, totalInformation) = groups_and_information guess (possibleWords s);
            expectedRemaining = sum_groups n groups;
            informationGain = dsub (of_nat n) expectedRemaining;
            avgInformation = ddiv totalInformation (of_nat n);
            guessLetters = js_set guess;
            newLettersCount = length (filter (\<lambda>letter. Some letter \<notin> testedLetters s) guessLetters);
            informationGain = dadd informationGain (dmul (of_nat newLettersCount) (3 / 2));
            uniqueLetters = length guessLetters;
            informationGain =
              (if uniqueLetters < 5 \<and> n > 10
               then dsub informationGain (dmul (dsub 5 (of_nat uniqueLetters)) 1)
               else informationGain);
            excludedLettersUsed =
              length (filter (\<lambda>letter. Some letter \<in> excludedLetters s) guessLetters);
            informationGain = dsub informationGain (dmul (of_nat excludedLettersUsed) 3)
        in dadd informationGain (dmul avgInformation (fl (4 / 5))))"

section \<open>The recommendation engine\<close>

record recommendation =
  word :: string
  score :: rat
  expectedRemaining :: rat
  newLetters :: nat
  isPossibleAnswer :: bool
  uniqueLetters :: nat

text \<open>\<open>wordLetters.includes(letter)\<close> on an array of letters: \<open>undefined\<close> is never found.\<close>

definition array_includes :: "'a list \<Rightarrow> 'a option \<Rightarrow> bool" where
  "array_includes xs l = (case l of Some c \<Rightarrow> c \<in> set xs | None \<Rightarrow> False)"

text \<open>The set \<open>diffLetters\<close>, in insertion order.\<close>

definition diffLetters :: "string \<Rightarrow> string \<Rightarrow> char option list" where
  "diffLetters word1 word2 =
     js_set (concat (map (\<lambda>i. if js_index word1 i \<noteq> js_index word2 i
                               then [js_index word1 i, js_index word2 i] else [])
                      [0..<5]))"

definition findDistinguishingWords :: "session \<Rightarrow> string list" where
  "findDistinguishingWords s =
     (case possibleWords s of
        [word1, word2] \<Rightarrow>
          filter (\<lambda>word. list_ex (\<lambda>letter. array_includes word letter) (diffLetters word1 word2)
                         \<and> length (js_set word) = 5)
            (allWords s)
      | _ \<Rightarrow> allWords s)"

text \<open>The object returned for a remaining candidate when nothing is scored.\<close>

definition candidate_entry :: "string \<Rightarrow> recommendation" where
  "candidate_entry w =
     \<lparr>word = w, score = 0, expectedRemaining = 1, newLetters = 0,
      isPossibleAnswer = True, uniqueLetters = length (js_set w)\<rparr>"

text \<open>The object pushed to \<open>detailedGuesses\<close> for one guess of the pool.\<close>

definition detailed_entry :: "session \<Rightarrow> string \<Rightarrow> recommendation" where
  "detailed_entry s guess =
     \<lparr>word = guess,
      score = calculateExpectedValue guess s,
      expectedRemaining = calculateExpectedRemainingWords guess s,
      newLetters = length (filter (\<lambda>l. Some l \<notin> testedLetters s) (js_set guess)),
      isPossibleAnswer = (guess \<in> set (possibleWords s)),
      uniqueLetters = length (js_set guess)\<rparr>"

text \<open>
  \<open>detailedGuesses.sort((a, b) => b.score - a.score)\<close> is a stable sort by descending
  score: \<open>sort_key\<close> on the negated score. The difference of two doubles, rounded, has
  the sign of the exact difference, so the comparator orders the scores as the rationals
  they denote are ordered.
\<close>

definition findTopGuesses :: "nat \<Rightarrow> session \<Rightarrow> recommendation list" where
  "findTopGuesses numRecommendations s =
     (case possibleWords s of
        [] \<Rightarrow> []
      | [w] \<Rightarrow> [candidate_entry w]
      | _ \<Rightarrow>
          let guessPool =
                (if length (possibleWords s) > 50 then take 2000 (allWords s)
                 else if length (possibleWords s) > 2 then allWords s
                 else findDistinguishingWords s)
          in if \<not> length (possibleWords s) > 2 \<and> guessPool = []
             then map candidate_entry (possibleWords s)
             else take numRecommendations
                    (sort_key (\<lambda>r. - score r) (map (detailed_entry s) guessPool)))"

text \<open>
  What \<open>updateRecommendations\<close> writes to the page. The texts with numbers in them are
  kept as their template and arguments; the fixed texts are kept literally.
\<close>

datatype message =
    Literal string
  | BestExpected rat
  | Distinguishing "string list"
  | PossibleAnswer rat
  | NewLetters nat rat

record display =
  recommendedWord :: string
  recommendationReason :: message
  finalAnswers :: "string option"
  topRecommendations :: "recommendation list option"

definition showFinalAnswers :: "session \<Rightarrow> display \<Rightarrow> display" where
  "showFinalAnswers s d =
     (case possibleWords s of
        [w] \<Rightarrow> d\<lparr>recommendedWord := w,
                 recommendationReason := Literal ''This is the only possible answer!'',
                 finalAnswers := Some w, topRecommendations := None\<rparr>
      | _ \<Rightarrow> d\<lparr>finalAnswers := None, topRecommendations := None\<rparr>)"

definition updateRecommendations :: "session \<Rightarrow> display \<Rightarrow> display" where
  "updateRecommendations s d =
     (if length (possibleWords s) = 0
      then d\<lparr>recommendedWord := ''NO WORDS'',
              recommendationReason :=
                Literal ''No possible words match your constraints. Check your inputs.''\<rparr>
      else if length (possibleWords s) = 1 then showFinalAnswers s d
      else
        (case findTopGuesses 8 s of
           [] \<Rightarrow> d
         | best # others \<Rightarrow>
             d\<lparr>recommendedWord := word best,
               recommendationReason :=
                 (if length (guessHistory s) = 0 then BestExpected (expectedRemaining best)
                  else if length (possibleWords s) = 2 then Distinguishing (possibleWords s)
                  else if isPossibleAnswer best \<and> length (possibleWords s) \<le> 5
                  then PossibleAnswer (expectedRemaining best)
                  else if newLetters best > 0 then NewLetters (newLetters best) (expectedRemaining best)
                  else BestExpected (expectedRemaining best)),
               topRecommendations := Some (best # others)\<rparr>))"

section \<open>The specification's formulas\<close>

text \<open>
  The quantities of the specification, written from its words, as exact numbers: the
  group of candidates that produce a given feedback against a guess, the
  probability-weighted average group size, the per-symbol weights, the average information
  and the score.
\<close>

definition pattern_group :: "string \<Rightarrow> string list \<Rightarrow> color list \<Rightarrow> string list" where
  "pattern_group guess candidates p =
     filter (\<lambda>answer. getResultPattern guess answer = p) candidates"

definition expected_remaining :: "string \<Rightarrow> string list \<Rightarrow> rat" where
  "expected_remaining guess candidates =
     (\<Sum>p \<in> set (map (getResultPattern guess) candidates).
        (of_nat (length (pattern_group guess candidates p)) / of_nat (length candidates))
        * of_nat (length (pattern_group guess candidates p)))"

definition symbol_weight :: "color \<Rightarrow> rat" where
  "symbol_weight c = (case c of Green \<Rightarrow> 3 / 2 | Yellow \<Rightarrow> 1 | Grey \<Rightarrow> 2 / 5)"

definition avg_information :: "string \<Rightarrow> string list \<Rightarrow> rat" where
  "avg_information guess candidates =
     (\<Sum>answer\<leftarrow>candidates. \<Sum>c\<leftarrow>getResultPattern guess answer. symbol_weight c)
     / of_nat (length candidates)"

definition score_formula :: "string \<Rightarrow> string list \<Rightarrow> char option set \<Rightarrow> char option set \<Rightarrow> rat" where
  "score_formula guess candidates tested excluded =
     (of_nat (length candidates) - expected_remaining guess candidates)
     + (3 / 2) * of_nat (card {c \<in> set guess. Some c \<notin> tested})
     - (if card (set guess) < 5 \<and> length candidates > 10
        then 1 * (5 - of_nat (card (set guess))) else 0)
     - 3 * of_nat (card {c \<in> set guess. Some c \<in> excluded})
     + (4 / 5) * avg_information guess candidates"

text \<open>
  The same quantities evaluated in double arithmetic, each formula from left to right as
  the specification writes it. A sum in doubles depends on the order of its terms: the
  groups are taken in the order in which their patterns first occur among the candidates,
  the candidates in their order, the positions of a pattern from the first to the last.
\<close>

definition expected_remaining_double :: "string \<Rightarrow> string list \<Rightarrow> rat" where
  "expected_remaining_double guess candidates =
     fold (\<lambda>p total.
             dadd total
               (dmul (ddiv (of_nat (length (pattern_group guess candidates p)))
                           (of_nat (length candidates)))
                     (of_nat (length (pattern_group guess candidates p)))))
       (js_set (map (getResultPattern guess) candidates)) 0"

definition symbol_weight_double :: "color \<Rightarrow> rat" where
  "symbol_weight_double c = (case c of Green \<Rightarrow> 3 / 2 | Yellow \<Rightarrow> 1 | Grey \<Rightarrow> fl (2 / 5))"

definition avg_information_double :: "string \<Rightarrow> string list \<Rightarrow> rat" where
  "avg_information_double guess candidates =
     ddiv (fold (\<lambda>answer total.
                   dadd total
                     (fold (\<lambda>c information. dadd information (symbol_weight_double c))
                        (getResultPattern guess answer) 0))
             candidates 0)
          (of_nat (length candidates))"

definition score_formula_double :: "string \<Rightarrow> string list \<Rightarrow> char option set \<Rightarrow> char option set \<Rightarrow> rat" where
  "score_formula_double guess candidates tested excluded =
     (let gain = dsub (of_nat (length candidates)) (expected_remaining_double guess candidates);
          gain = dadd gain (dmul (of_nat (card {c \<in> set guess. Some c \<notin> tested})) (3 / 2));
          gain = (if card (set guess) < 5 \<and> length candidates > 10
                  then dsub gain (dmul (dsub 5 (of_nat (card (set guess)))) 1)
                  else gain);
          gain = dsub gain (dmul (of_nat (card {c \<in> set guess. Some c \<in> excluded})) 3)
      in dadd gain (dmul (avg_information_double guess candidates) (fl (4 / 5))))"

text \<open>
  The distinguishing letters of two candidates: the letters either of them has at a
  position where they differ.
\<close>

definition distinguishing_letters :: "string \<Rightarrow> string \<Rightarrow> char set" where
  "distinguishing_letters word1 word2 =
     {c. \<exists>i<5. word1 ! i \<noteq> word2 ! i \<and> (c = word1 ! i \<or> c = word2 ! i)}"

section \<open>Proof devices\<close>

text \<open>
  The invariant of the second pass of \<open>getResultPattern\<close> after \<open>k\<close> positions: the
  result has five entries, only answer indices below five are consumed, green marks
  exactly the agreeing positions, every letter has as many non-grey marks as consumed
  answer indices, and a position passed over as grey found all its letter's answer
  indices consumed.
\<close>

definition pattern_inv :: "string \<Rightarrow> string \<Rightarrow> nat \<Rightarrow> color list \<times> nat set \<Rightarrow> bool" where
  "pattern_inv g a k st \<longleftrightarrow>
     length (fst st) = 5 \<and> snd st \<subseteq> {..<5} \<and>
     (\<forall>i<5. fst st ! i = Green \<longleftrightarrow> js_index g i = js_index a i) \<and>
     (\<forall>L. card {i. i < 5 \<and> fst st ! i \<noteq> Grey \<and> js_index g i = L}
          = card {j. j \<in> snd st \<and> js_index a j = L}) \<and>
     (\<forall>i<k. fst st ! i = Grey \<longrightarrow> (\<forall>j<5. js_index a j = js_index g i \<longrightarrow> j \<in> snd st))"

text \<open>
  The invariant of a session: every remaining candidate holds every known letter and
  no excluded letter.
\<close>

definition letters_consistent :: "session \<Rightarrow> bool" where
  "letters_consistent s \<longleftrightarrow>
     (\<forall>w \<in> set (possibleWords s).
        (\<forall>l \<in> knownLetters s. includes_letter w l) \<and>
        (\<forall>l \<in> excludedLetters s. \<not> includes_letter w l))"

text \<open>Grouping a list of words by an arbitrary key, as \<open>resultGroups\<close> does by pattern key.\<close>

definition groups_by :: "(string \<Rightarrow> string) \<Rightarrow> string list \<Rightarrow> (string \<times> string list) list" where
  "groups_by key ws = fold (\<lambda>w m. group_add (key w) w m) ws []"

section \<open>Properties of the pattern evaluator\<close>

lemma fold_mark_green:
  "n \<le> length res \<Longrightarrow>
   fold (mark_green g a) [0..<n] (res, used) =
     (map (\<lambda>i. if i < n \<and> js_index g i = js_index a i then Green else res ! i) [0..<length res],
      used \<union> {i. i < n \<and> js_index g i = js_index a i})"
proof (induction n)
  case 0
  show ?case by (simp add: map_nth)
next
  case (Suc n)
  then have le: "n \<le> length res" and lt: "n < length res" by simp_all
  show ?case
  proof (cases "js_index g n = js_index a n")
    case True
    have "(map (\<lambda>i. if i < n \<and> js_index g i = js_index a i then Green else res ! i) [0..<length res])[n := Green]
        = map (\<lambda>i. if i < Suc n \<and> js_index g i = js_index a i then Green else res ! i) [0..<length res]"
      using lt True by (intro nth_equalityI) (auto simp: nth_list_update less_Suc_eq)
    moreover have "insert n (used \<union> {i. i < n \<and> js_index g i = js_index a i})
        = used \<union> {i. i < Suc n \<and> js_index g i = js_index a i}"
      using True by (auto simp: less_Suc_eq)
    ultimately show ?thesis
      using Suc.IH [OF le] True by (simp add: mark_green_def)
  next
    case False
    have "map (\<lambda>i. if i < n \<and> js_index g i = js_index a i then Green else res ! i) [0..<length res]
        = map (\<lambda>i. if i < Suc n \<and> js_index g i = js_index a i then Green else res ! i) [0..<length res]"
      using False by (auto simp: less_Suc_eq)
    moreover have "{i. i < n \<and> js_index g i = js_index a i}
        = {i. i < Suc n \<and> js_index g i = js_index a i}"
      using False by (auto simp: less_Suc_eq)
    ultimately show ?thesis
      using Suc.IH [OF le] False by (simp add: mark_green_def)
  qed
qed

lemma pattern_inv_greens:
  "pattern_inv g a 0 (fold (mark_green g a) [0..<5] ([Grey, Grey, Grey, Grey, Grey], {}))"
proof -
  define res0 where "res0 = [Grey, Grey, Grey, Grey, Grey]"
  have len0: "length res0 = 5" by (simp add: res0_def)
  have grey: "res0 ! i = Grey" if "i < 5" for i
    using that by (simp add: res0_def nth_Cons')
  define res where "res = map (\<lambda>i. if i < 5 \<and> js_index g i = js_index a i then Green
                         else res0 ! i) [0..<length res0]"
  define used where "used = {} \<union> {i. i < (5::nat) \<and> js_index g i = js_index a i}"
  have st: "fold (mark_green g a) [0..<5] (res0, {}) = (res, used)"
    unfolding res_def used_def by (rule fold_mark_green) (simp add: len0)
  have len: "length res = 5" by (simp add: res_def len0)
  have nth: "res ! i = (if js_index g i = js_index a i then Green else Grey)" if "i < 5" for i
    using that grey by (simp add: res_def len0)
  have sets: "{i. i < 5 \<and> res ! i \<noteq> Grey \<and> js_index g i = L}
      = {j. j \<in> used \<and> js_index a j = L}" for L
    using nth by (auto simp: used_def split: if_splits)
  have "pattern_inv g a 0 (res, used)"
    unfolding pattern_inv_def fst_conv snd_conv
    using nth sets len by (auto simp: used_def)
  then show ?thesis by (simp add: st [unfolded res0_def])
qed

lemma pattern_inv_step:
  assumes inv: "pattern_inv g a k st" and k: "k < 5"
  shows "pattern_inv g a (Suc k) (mark_yellow g a k st)"
proof -
  obtain res used where st: "st = (res, used)" by (cases st)
  from inv st have len: "length res = 5" and sub: "used \<subseteq> {..<5}"
    and green: "\<And>i. i < 5 \<Longrightarrow> res ! i = Green \<longleftrightarrow> js_index g i = js_index a i"
    and cnt: "\<And>L. card {i. i < 5 \<and> res ! i \<noteq> Grey \<and> js_index g i = L}
                  = card {j. j \<in> used \<and> js_index a j = L}"
    and seen: "\<And>i j. i < k \<Longrightarrow> res ! i = Grey \<Longrightarrow> j < 5 \<Longrightarrow> js_index a j = js_index g i \<Longrightarrow> j \<in> used"
    by (auto simp: pattern_inv_def)
  have idx: "js_index res k = Some (res ! k)" using k len by (simp add: js_index_def)
  show ?thesis
  proof (cases "res ! k = Grey")
    case False
    then have same: "mark_yellow g a k (res, used) = (res, used)" by (simp add: mark_yellow_def idx)
    show ?thesis
      unfolding st same pattern_inv_def fst_conv snd_conv
      using len sub green cnt seen False by (auto simp: less_Suc_eq)
  next
    case True
    show ?thesis
    proof (cases "find (\<lambda>j. j \<notin> used \<and> js_index a j = js_index g k) [0..<5]")
      case None
      then have same: "mark_yellow g a k (res, used) = (res, used)" by (simp add: mark_yellow_def idx True)
      from None have all: "\<And>j. j < 5 \<Longrightarrow> js_index a j = js_index g k \<Longrightarrow> j \<in> used"
        by (auto simp: find_None_iff)
      show ?thesis
        unfolding st same pattern_inv_def fst_conv snd_conv
        using len sub green cnt seen all by (auto simp: less_Suc_eq)
    next
      case (Some j0)
      then have new: "mark_yellow g a k (res, used) = (res[k := Yellow], insert j0 used)"
        by (simp add: mark_yellow_def idx True)
      from Some have j0: "j0 < 5" "j0 \<notin> used" "js_index a j0 = js_index g k"
        by (auto simp: find_Some_iff)
      have fin: "finite {i. i < (5::nat) \<and> P i}" for P by simp
      have finu: "finite {j. j \<in> used \<and> P j}" for P
        using finite_subset [OF sub] by simp
      have cnt': "card {i. i < 5 \<and> res[k := Yellow] ! i \<noteq> Grey \<and> js_index g i = L}
                = card {j. j \<in> insert j0 used \<and> js_index a j = L}" for L
      proof (cases "js_index g k = L")
        case eq: True
        have "{i. i < 5 \<and> res[k := Yellow] ! i \<noteq> Grey \<and> js_index g i = L}
            = insert k {i. i < 5 \<and> res ! i \<noteq> Grey \<and> js_index g i = L}"
          using k len eq by (auto simp: nth_list_update)
        moreover have "{j. j \<in> insert j0 used \<and> js_index a j = L}
            = insert j0 {j. j \<in> used \<and> js_index a j = L}"
          using j0 eq by auto
        moreover have "k \<notin> {i. i < 5 \<and> res ! i \<noteq> Grey \<and> js_index g i = L}"
          using True by simp
        moreover have "j0 \<notin> {j. j \<in> used \<and> js_index a j = L}"
          using j0 by simp
        ultimately show ?thesis
          using cnt [of L] fin finu by (simp del: insert_iff)
      next
        case neq: False
        have "{i. i < 5 \<and> res[k := Yellow] ! i \<noteq> Grey \<and> js_index g i = L}
            = {i. i < 5 \<and> res ! i \<noteq> Grey \<and> js_index g i = L}"
          using k len neq True by (auto simp: nth_list_update)
        moreover have "{j. j \<in> insert j0 used \<and> js_index a j = L}
            = {j. j \<in> used \<and> js_index a j = L}"
          using j0 neq by auto
        ultimately show ?thesis using cnt [of L] by simp
      qed
      have green': "res[k := Yellow] ! i = Green \<longleftrightarrow> js_index g i = js_index a i" if "i < 5" for i
        using that green [of i] True k len by (cases "i = k") (auto simp: nth_list_update)
      have seen': "j \<in> insert j0 used"
        if "i < Suc k" "res[k := Yellow] ! i = Grey" "j < 5" "js_index a j = js_index g i" for i j
      proof -
        from that k len have "i \<noteq> k" by (auto simp: nth_list_update)
        with that have "i < k" "res ! i = Grey" by (auto simp: nth_list_update)
        then show ?thesis using seen that by blast
      qed
      show ?thesis
        unfolding st new pattern_inv_def fst_conv snd_conv
        using len sub j0(1) green' cnt' seen' by auto
    qed
  qed
qed

lemma pattern_inv_fold:
  "pattern_inv g a 0 st \<Longrightarrow> n \<le> 5 \<Longrightarrow> pattern_inv g a n (fold (mark_yellow g a) [0..<n] st)"
proof (induction n)
  case 0
  then show ?case by simp
next
  case (Suc n)
  then have "pattern_inv g a n (fold (mark_yellow g a) [0..<n] st)" by simp
  then show ?case using Suc.prems pattern_inv_step [of g a n] by simp
qed


lemma getResultPattern_inv: "\<exists>used. pattern_inv g a 5 (getResultPattern g a, used)"
proof -
  have "pattern_inv g a 5 (fold (mark_yellow g a) [0..<5]
          (fold (mark_green g a) [0..<5] ([Grey, Grey, Grey, Grey, Grey], {})))"
    by (rule pattern_inv_fold [OF pattern_inv_greens]) simp
  then show ?thesis
    unfolding getResultPattern_def by (metis prod.collapse)
qed

lemma length_getResultPattern: "length (getResultPattern g a) = 5"
  using getResultPattern_inv [of g a] by (auto simp: pattern_inv_def)

lemma getResultPattern_green:
  "i < 5 \<Longrightarrow> getResultPattern g a ! i = Green \<longleftrightarrow> js_index g i = js_index a i"
  using getResultPattern_inv [of g a] by (auto simp: pattern_inv_def)

lemma marked_le_answer:
  assumes "pattern_inv g a k (p, used)"
  shows "card {i. i < 5 \<and> p ! i \<noteq> Grey \<and> js_index g i = L}
       \<le> card {j. j < 5 \<and> js_index a j = L}"
proof -
  from assms have sub: "used \<subseteq> {..<5}"
    and cnt: "card {i. i < 5 \<and> p ! i \<noteq> Grey \<and> js_index g i = L}
            = card {j. j \<in> used \<and> js_index a j = L}"
    by (auto simp: pattern_inv_def)
  have "{j. j \<in> used \<and> js_index a j = L} \<subseteq> {j. j < 5 \<and> js_index a j = L}"
    using sub by auto
  then have "card {j. j \<in> used \<and> js_index a j = L} \<le> card {j. j < 5 \<and> js_index a j = L}"
    by (intro card_mono) simp_all
  with cnt show ?thesis by simp
qed

lemma grey_letter_absent:
  assumes inv: "pattern_inv g a 5 (p, used)" and i: "i < 5" and grey: "p ! i = Grey"
    and j: "j < 5" and eq: "js_index a j = js_index g i"
  shows "\<exists>i'<5. p ! i' \<noteq> Grey \<and> js_index g i' = js_index g i"
proof -
  from inv have sub: "used \<subseteq> {..<5}"
    and cnt: "card {i'. i' < 5 \<and> p ! i' \<noteq> Grey \<and> js_index g i' = js_index g i}
            = card {j. j \<in> used \<and> js_index a j = js_index g i}"
    and seen: "\<forall>i<5. p ! i = Grey \<longrightarrow> (\<forall>j<5. js_index a j = js_index g i \<longrightarrow> j \<in> used)"
    by (auto simp: pattern_inv_def)
  from seen i grey j eq have "j \<in> {j. j \<in> used \<and> js_index a j = js_index g i}" by simp
  moreover have "finite {j. j \<in> used \<and> js_index a j = js_index g i}"
    using finite_subset [OF sub] by simp
  ultimately have "card {j. j \<in> used \<and> js_index a j = js_index g i} \<noteq> 0"
    by (metis card_eq_0_iff empty_iff)
  with cnt have "{i'. i' < 5 \<and> p ! i' \<noteq> Grey \<and> js_index g i' = js_index g i} \<noteq> {}"
    by (metis card.empty)
  then show ?thesis by auto
qed

lemma yellow_letter_present:
  assumes inv: "pattern_inv g a k (p, used)" and i: "i < 5" and ng: "p ! i \<noteq> Grey"
  shows "\<exists>j<5. js_index a j = js_index g i"
proof -
  from inv have sub: "used \<subseteq> {..<5}"
    and cnt: "card {i'. i' < 5 \<and> p ! i' \<noteq> Grey \<and> js_index g i' = js_index g i}
            = card {j. j \<in> used \<and> js_index a j = js_index g i}"
    by (auto simp: pattern_inv_def)
  have "i \<in> {i'. i' < 5 \<and> p ! i' \<noteq> Grey \<and> js_index g i' = js_index g i}"
    using i ng by simp
  moreover have "finite {i'. i' < (5::nat) \<and> p ! i' \<noteq> Grey \<and> js_index g i' = js_index g i}"
    by simp
  ultimately have "card {i'. i' < 5 \<and> p ! i' \<noteq> Grey \<and> js_index g i' = js_index g i} \<noteq> 0"
    by (metis card_eq_0_iff empty_iff)
  with cnt have "{j. j \<in> used \<and> js_index a j = js_index g i} \<noteq> {}"
    by (metis card.empty)
  then show ?thesis using sub by auto
qed

lemma count_list_conv_card:
  "count_list xs x = card {j. j < length xs \<and> xs ! j = x}"
proof -
  have "count_list xs x = length (filter ((=) x) xs)"
    by (rule count_list_eq_length_filter)
  also have "\<dots> = card {j. j < length xs \<and> x = xs ! j}"
    by (rule length_filter_conv_card)
  also have "{j. j < length xs \<and> x = xs ! j} = {j. j < length xs \<and> xs ! j = x}" by auto
  finally show ?thesis .
qed

lemma length_filter_upt_card:
  "length (filter P [0..<n]) = card {i. i < n \<and> P i}"
proof -
  have "length (filter P [0..<n]) = card ({i. P i} \<inter> set [0..<n])"
    by (rule distinct_length_filter) simp
  also have "{i. P i} \<inter> set [0..<n] = {i. i < n \<and> P i}" by auto
  finally show ?thesis .
qed

text \<open>
  Claim C2, duplicate-letter bound: for five-letter words and every letter \<open>L\<close>, the
  number of positions of the guess that hold \<open>L\<close> and are marked green or yellow is at most
  the number of occurrences of \<open>L\<close> in the answer.
\<close>

theorem duplicate_letter_bound:
  assumes "length guess = 5" and "length answer = 5"
  shows "length (filter (\<lambda>i. guess ! i = L \<and>
             (getResultPattern guess answer ! i = Green \<or> getResultPattern guess answer ! i = Yellow))
           [0..<5]) \<le> count_list answer L"
proof -
  obtain used where inv: "pattern_inv guess answer 5 (getResultPattern guess answer, used)"
    using getResultPattern_inv by blast
  let ?p = "getResultPattern guess answer"
  have "length (filter (\<lambda>i. guess ! i = L \<and> (?p ! i = Green \<or> ?p ! i = Yellow)) [0..<5])
      = card {i. i < 5 \<and> (guess ! i = L \<and> (?p ! i = Green \<or> ?p ! i = Yellow))}"
    by (rule length_filter_upt_card)
  also have "{i. i < 5 \<and> (guess ! i = L \<and> (?p ! i = Green \<or> ?p ! i = Yellow))}
      = {i. i < 5 \<and> ?p ! i \<noteq> Grey \<and> js_index guess i = Some L}"
    using assms by (auto simp: js_index_def) (metis color.exhaust)
  also have "card \<dots> \<le> card {j. j < 5 \<and> js_index answer j = Some L}"
    by (rule marked_le_answer [OF inv])
  also have "{j. j < 5 \<and> js_index answer j = Some L} = {j. j < length answer \<and> answer ! j = L}"
    using assms by (auto simp: js_index_def)
  also have "card \<dots> = count_list answer L"
    by (simp add: count_list_conv_card)
  finally show ?thesis .
qed

text \<open>
  Claim C10, all-green characterises equality: for five-letter words, the pattern is
  green at all five positions if and only if the guess is the answer.
\<close>

theorem all_green_iff_equal:
  assumes "length guess = 5" and "length answer = 5"
  shows "getResultPattern guess answer = [Green, Green, Green, Green, Green] \<longleftrightarrow> guess = answer"
proof -
  let ?p = "getResultPattern guess answer"
  have five: "[Green, Green, Green, Green, Green] ! i = Green" if "i < 5" for i
    using that by (simp add: nth_Cons' )
  have "?p = [Green, Green, Green, Green, Green] \<longleftrightarrow> (\<forall>i<5. ?p ! i = Green)"
    using five by (auto simp: list_eq_iff_nth_eq length_getResultPattern)
  also have "\<dots> \<longleftrightarrow> (\<forall>i<5. js_index guess i = js_index answer i)"
    by (simp add: getResultPattern_green)
  also have "\<dots> \<longleftrightarrow> guess = answer"
    using assms by (auto simp: list_eq_iff_nth_eq js_index_def)
  finally show ?thesis .
qed


lemma guessCount_conv_card:
  assumes "length g = 5" and "length p = 5"
  shows "guessCount g p L = card {i. i < 5 \<and> p ! i \<noteq> Grey \<and> js_index g i = L}"
proof -
  have "guessCount g p L
      = card {i. i < 5 \<and> (Some (g ! i) = L \<and> yellow_or_green (js_index p i))}"
    unfolding guessCount_def assms by (rule length_filter_upt_card)
  also have "{i. i < 5 \<and> (Some (g ! i) = L \<and> yellow_or_green (js_index p i))}
      = {i. i < 5 \<and> p ! i \<noteq> Grey \<and> js_index g i = L}"
    using assms by (auto simp: js_index_def yellow_or_green_def) (metis color.exhaust)
  finally show ?thesis .
qed

lemma wordCount_conv_card:
  assumes "length a = 5"
  shows "wordCount a L = card {j. j < 5 \<and> js_index a j = L}"
proof -
  have "wordCount a L = card {j. j < length a \<and> Some (a ! j) = L}"
    unfolding wordCount_def by (rule length_filter_conv_card)
  also have "{j. j < length a \<and> Some (a ! j) = L} = {j. j < 5 \<and> js_index a j = L}"
    using assms by (auto simp: js_index_def)
  finally show ?thesis .
qed

lemma position_ok_pattern:
  assumes g: "length g = 5" and a: "length a = 5" and i: "i < 5"
  shows "position_ok a g (getResultPattern g a) i"
proof -
  let ?p = "getResultPattern g a"
  obtain used where inv: "pattern_inv g a 5 (?p, used)"
    using getResultPattern_inv by blast
  have len: "length ?p = 5" by (rule length_getResultPattern)
  have pi: "js_index ?p i = Some (?p ! i)" using i len by (simp add: js_index_def)
  have gi: "js_index g i = Some (g ! i)" using i g by (simp add: js_index_def)
  show ?thesis
  proof (cases "?p ! i")
    case Green
    then have "js_index g i = js_index a i" using getResultPattern_green [OF i] by simp
    then show ?thesis by (simp add: position_ok_def pi Green)
  next
    case Yellow
    then have ne: "js_index a i \<noteq> js_index g i"
      using getResultPattern_green [OF i, of g a] by auto
    from Yellow have "?p ! i \<noteq> Grey" by simp
    from yellow_letter_present [OF inv i this]
    obtain j where "j < 5" "js_index a j = js_index g i" by blast
    then have "j < length a" "a ! j = g ! i" using a gi by (auto simp: js_index_def)
    then have "g ! i \<in> set a" by (metis nth_mem)
    then show ?thesis using ne by (simp add: position_ok_def pi Yellow gi includes_letter_def)
  next
    case Grey
    have "hasYellowOrGreen g ?p (js_index g i)" if "includes_letter a (js_index g i)"
    proof -
      from that have "g ! i \<in> set a" by (simp add: gi includes_letter_def)
      then obtain j where "j < 5" "a ! j = g ! i" using a by (auto simp: in_set_conv_nth)
      then have "j < 5" "js_index a j = js_index g i" using a gi by (simp_all add: js_index_def)
      from grey_letter_absent [OF inv i Grey this]
      obtain i' where i': "i' < 5" "?p ! i' \<noteq> Grey" "js_index g i' = js_index g i" by blast
      then have "yellow_or_green (js_index ?p i')"
        using len by (cases "?p ! i'") (simp_all add: js_index_def yellow_or_green_def)
      with i' show ?thesis
        unfolding hasYellowOrGreen_def list_ex_iff len by auto
    qed
    then show ?thesis by (auto simp: position_ok_def pi Grey)
  qed
qed

lemma count_ok_pattern:
  assumes g: "length g = 5" and a: "length a = 5"
  shows "count_ok a g (getResultPattern g a) i"
proof -
  let ?p = "getResultPattern g a"
  obtain used where inv: "pattern_inv g a 5 (?p, used)"
    using getResultPattern_inv by blast
  have len: "length ?p = 5" by (rule length_getResultPattern)
  have "guessCount g ?p (js_index g i) \<le> wordCount a (js_index g i)"
    unfolding guessCount_conv_card [OF g len] wordCount_conv_card [OF a]
    by (rule marked_le_answer [OF inv])
  then show ?thesis by (simp add: count_ok_def)
qed

text \<open>
  Claim C1, pattern self-consistency: for five-letter words \<open>guess\<close> and \<open>answer\<close>, the
  answer is compatible with the feedback that \<open>getResultPattern\<close> computes for the guess
  against it; \<open>isWordCompatible\<close> never filters the true answer out.
\<close>

theorem pattern_self_consistency:
  assumes "length guess = 5" and "length answer = 5"
  shows "isWordCompatible answer guess (getResultPattern guess answer)"
  unfolding isWordCompatible_def list_all_iff
  using position_ok_pattern [OF assms] count_ok_pattern [OF assms] by simp

text \<open>
  Claim C1 at the guess CRANE against the answer TRACE.
\<close>

theorem pattern_self_consistency_witness:
  "isWordCompatible ''TRACE'' ''CRANE'' (getResultPattern ''CRANE'' ''TRACE'')"
  using pattern_self_consistency [of "''CRANE''" "''TRACE''"] by simp

section \<open>Properties of the numbers\<close>

text \<open>
  \<open>fl\<close> rounds to the nearest point of the grid of doubles: \<open>ilog2\<close> is the binary
  exponent, the result is a multiple of the grid's step and is at most half a step from
  the argument. An integer below \<open>2^53\<close>, such as an array length, is a double.
\<close>

lemma round_even_nearest: "\<bar>of_int (round_even r) - r\<bar> \<le> 1 / 2"
proof -
  have "of_int \<lfloor>r\<rfloor> \<le> r" "r < of_int \<lfloor>r\<rfloor> + 1" by linarith+
  then show ?thesis
    by (auto simp: round_even_def Let_def abs_le_iff)
qed

lemma bitlen_bounds_rat:
  assumes "0 < k"
  shows "(2::rat) ^ nat (bitlen k - 1) \<le> of_int k" and "(of_int k + 1 :: rat) \<le> 2 ^ nat (bitlen k)"
    and "0 < bitlen k"
proof -
  from bitlen_bounds [OF assms] have b: "2 ^ nat (bitlen k - 1) \<le> k" "k + 1 \<le> 2 ^ nat (bitlen k)"
    by simp_all
  have "(of_int (2 ^ nat (bitlen k - 1)) :: rat) \<le> of_int k"
    using b(1) by (simp only: of_int_le_iff)
  then show "(2::rat) ^ nat (bitlen k - 1) \<le> of_int k" by simp
  have "(of_int (k + 1) :: rat) \<le> of_int (2 ^ nat (bitlen k))"
    using b(2) by (simp only: of_int_le_iff)
  then show "(of_int k + 1 :: rat) \<le> 2 ^ nat (bitlen k)" by simp
  show "0 < bitlen k"
    using assms bitlen_nonneg [of k] bitlen_eq_zero_iff [of k] by linarith
qed

lemma ilog2_bounds:
  assumes "x \<noteq> 0"
  shows "2 powi ilog2 x \<le> \<bar>x\<bar> \<and> \<bar>x\<bar> < 2 powi (ilog2 x + 1)"
proof (cases "1 \<le> \<bar>x\<bar>")
  case True
  define k where "k = \<lfloor>\<bar>x\<bar>\<rfloor>"
  have k: "0 < k" "of_int k \<le> \<bar>x\<bar>" "\<bar>x\<bar> < of_int k + 1"
    using True unfolding k_def by linarith+
  note b = bitlen_bounds_rat [OF k(1)]
  have e: "ilog2 x = bitlen k - 1" using True by (simp add: ilog2_def k_def)
  have p1: "2 powi ilog2 x = (2::rat) ^ nat (bitlen k - 1)"
    using b(3) by (simp add: e power_int_def)
  have p2: "2 powi (ilog2 x + 1) = (2::rat) ^ nat (bitlen k)"
    using b(3) by (simp add: e power_int_def)
  have "(2::rat) ^ nat (bitlen k - 1) \<le> \<bar>x\<bar>" using b(1) k(2) by (rule order_trans)
  moreover have "\<bar>x\<bar> < (2::rat) ^ nat (bitlen k)" using k(3) b(2) by (rule less_le_trans)
  ultimately show ?thesis by (simp only: p1 p2)
next
  case False
  define y where "y = 1 / \<bar>x\<bar>"
  define c where "c = \<lceil>y\<rceil>"
  have xpos: "0 < \<bar>x\<bar>" using assms by simp
  have y: "1 < y" using False xpos by (simp add: y_def)
  have c: "of_int c - 1 < y" "y \<le> of_int c" unfolding c_def by linarith+
  have c1: "0 < c - 1" using y c(2) by linarith
  note b = bitlen_bounds_rat [OF c1]
  define n where "n = nat (bitlen (c - 1) - 1)"
  have n: "nat (bitlen (c - 1)) = Suc n" using b(3) by (simp add: n_def)
  have e: "ilog2 x = - bitlen (c - 1)" using False by (simp add: ilog2_def c_def y_def)
  have p1: "2 powi ilog2 x = 1 / (2::rat) ^ Suc n"
    using b(3) n by (simp add: e power_int_def inverse_eq_divide power_one_over del: power_Suc)
  have p2: "2 powi (ilog2 x + 1) = 1 / (2::rat) ^ n"
  proof -
    have "ilog2 x + 1 = - int n" using b(3) by (simp add: e n_def)
    then show ?thesis by (simp add: power_int_def inverse_eq_divide power_one_over)
  qed
  have "rat_of_int (c - 1) < y"
    using c(1) by (simp only: of_int_diff of_int_1)
  with b(1) have ylo: "(2::rat) ^ n < y"
    unfolding n_def by (rule le_less_trans)
  have "rat_of_int c \<le> 2 ^ Suc n"
    using b(2) by (simp only: of_int_diff of_int_1 diff_add_cancel n)
  with c(2) have yhi: "y \<le> (2::rat) ^ Suc n"
    by (rule order_trans)
  have x: "\<bar>x\<bar> = 1 / y" using xpos by (simp add: y_def)
  have "1 / (2::rat) ^ Suc n \<le> 1 / y"
    using yhi y by (intro divide_left_mono) simp_all
  moreover have "1 / y < 1 / (2::rat) ^ n"
    using ylo y by (intro divide_strict_left_mono) (simp_all add: mult_pos_pos)
  ultimately show ?thesis by (simp only: p1 p2 x)
qed

lemma fl_grid:
  "\<exists>m. fl x = of_int m * 2 powi (max (ilog2 x) (- 1022) - 52)"
  by (cases "x = 0") (auto simp: fl_def Let_def intro: exI [of _ 0])

lemma fl_nearest:
  "\<bar>fl x - x\<bar> \<le> 2 powi (max (ilog2 x) (- 1022) - 53)"
proof (cases "x = 0")
  case True
  then show ?thesis by (simp add: fl_def)
next
  case False
  define q :: rat where "q = 2 powi (max (ilog2 x) (- 1022) - 52)"
  have q: "0 < q" by (simp add: q_def)
  have half: "2 powi (max (ilog2 x) (- 1022) - 53) = q / 2"
    by (simp add: q_def power_int_diff)
  have "fl x - x = (of_int (round_even (x / q)) - x / q) * q"
    using False q by (simp add: fl_def Let_def q_def [symmetric] algebra_simps)
  then have "\<bar>fl x - x\<bar> = \<bar>of_int (round_even (x / q)) - x / q\<bar> * q"
    using q by (simp add: abs_mult)
  also have "\<dots> \<le> (1 / 2) * q"
    using round_even_nearest [of "x / q"] q by (intro mult_right_mono) simp_all
  finally show ?thesis by (simp add: half)
qed


lemma round_even_of_int: "round_even (of_int k) = k"
  by (simp add: round_even_def)

lemma fl_of_nat:
  assumes "n < 2 ^ 53"
  shows "fl (of_nat n) = of_nat n"
proof (cases "n = 0")
  case True
  then show ?thesis by (simp add: fl_def)
next
  case False
  define x :: rat where "x = of_nat n"
  have x: "1 \<le> x" "x < 2 ^ 53" "x \<noteq> 0" "\<bar>x\<bar> = x"
    using False assms unfolding x_def
    by (simp_all add: of_nat_less_numeral_power_cancel_iff Suc_le_eq [symmetric] del: of_nat_Suc)
  have lo: "0 \<le> ilog2 x"
    using x(1) bitlen_bounds_rat(3) [of "\<lfloor>x\<rfloor>"] by (simp add: ilog2_def x(4))
  have hi: "ilog2 x \<le> 52"
  proof (rule ccontr)
    assume "\<not> ilog2 x \<le> 52"
    then have "53 \<le> ilog2 x" by simp
    then have "(2::rat) powi 53 \<le> 2 powi ilog2 x"
      by (intro power_int_increasing) simp_all
    moreover have "2 powi ilog2 x \<le> x" using ilog2_bounds [OF x(3)] x(4) by simp
    ultimately show False using x(2) by simp
  qed
  define d where "d = nat (52 - ilog2 x)"
  have q: "2 powi (max (ilog2 x) (- 1022) - 52) = 1 / (2::rat) ^ d"
  proof -
    have "max (ilog2 x) (- 1022) - 52 = - int d" using lo hi by (simp add: d_def)
    then show ?thesis by (simp add: power_int_def inverse_eq_divide power_one_over)
  qed
  have "x / (1 / 2 ^ d) = of_int (int n * 2 ^ d)" by (simp add: x_def)
  then have r: "round_even (x / (1 / 2 ^ d)) = int n * 2 ^ d"
    by (simp only: round_even_of_int)
  have "fl x = of_int (round_even (x / (1 / 2 ^ d))) * (1 / 2 ^ d)"
    using x(3) by (simp only: fl_def Let_def q if_False)
  also have "\<dots> = of_int (int n * 2 ^ d) * (1 / 2 ^ d)"
    by (simp only: r)
  also have "\<dots> = x"
    by (simp add: x_def)
  finally show ?thesis by (simp only: x_def)
qed

section \<open>Properties of the guess scorer\<close>

lemma color_name_prefix_free:
  "color_name c @ xs = color_name d @ ys \<Longrightarrow> c = d \<and> xs = ys"
  by (cases c; cases d) simp_all

lemma pattern_key_inj: "pattern_key p = pattern_key q \<Longrightarrow> p = q"
proof (induction p arbitrary: q)
  case Nil
  then show ?case by (cases q; cases "hd q") (auto simp: pattern_key_def)
next
  case (Cons c p)
  show ?case
  proof (cases q)
    case Nil
    with Cons.prems show ?thesis by (cases c) (simp_all add: pattern_key_def)
  next
    case (Cons d q')
    with Cons.prems have "color_name c @ pattern_key p = color_name d @ pattern_key q'"
      by (simp add: pattern_key_def)
    then have "c = d" "pattern_key p = pattern_key q'"
      using color_name_prefix_free by blast+
    with Cons.IH Cons show ?thesis by simp
  qed
qed

lemma set_js_set: "set (js_set xs) = set xs"
  by (induction xs) auto

lemma distinct_js_set: "distinct (js_set xs)"
  by (induction xs) (auto simp: set_js_set)

lemma length_js_set: "length (js_set xs) = card (set xs)"
  using distinct_card [OF distinct_js_set, of xs] by (simp add: set_js_set)

lemma length_filter_js_set: "length (filter P (js_set xs)) = card {x \<in> set xs. P x}"
proof -
  have "length (filter P (js_set xs)) = card ({x. P x} \<inter> set (js_set xs))"
    by (rule distinct_length_filter [OF distinct_js_set])
  also have "{x. P x} \<inter> set (js_set xs) = {x \<in> set xs. P x}"
    by (auto simp: set_js_set)
  finally show ?thesis .
qed

lemma js_set_snoc:
  "js_set (xs @ [x]) = (if x \<in> set xs then js_set xs else js_set xs @ [x])"
  by (induction xs) (auto simp: set_js_set)

lemma js_set_map_inj:
  assumes "inj f"
  shows "js_set (map f xs) = map f (js_set xs)"
proof (induction xs)
  case Nil
  show ?case by simp
next
  case (Cons a xs)
  have "(\<lambda>y. f y \<noteq> f a) = (\<lambda>y. y \<noteq> a)"
    using assms by (auto simp: inj_eq)
  then show ?case by (simp add: Cons.IH filter_map comp_def)
qed

lemma group_add_keys:
  "map fst (group_add key w m) =
     (if key \<in> set (map fst m) then map fst m else map fst m @ [key])"
  by (induction m) force+

lemma map_of_group_add:
  "map_of (group_add key w m) k =
     (if k = key then Some ((case map_of m key of None \<Rightarrow> [] | Some ws \<Rightarrow> ws) @ [w])
      else map_of m k)"
  by (induction m) auto

lemma groups_by_snoc: "groups_by key (ws @ [w]) = group_add (key w) w (groups_by key ws)"
  by (simp add: groups_by_def)

lemma groups_by_keys: "map fst (groups_by key ws) = js_set (map key ws)"
proof (induction ws rule: rev_induct)
  case Nil
  show ?case by (simp add: groups_by_def)
next
  case (snoc w ws)
  have "set (map fst (groups_by key ws)) = set (map key ws)"
    by (simp only: snoc.IH set_js_set)
  then show ?case
    by (simp add: groups_by_snoc group_add_keys js_set_snoc snoc.IH)
qed

lemma map_of_groups_by:
  "map_of (groups_by key ws) k =
     (if k \<in> key ` set ws then Some (filter (\<lambda>w. key w = k) ws) else None)"
proof (induction ws arbitrary: k rule: rev_induct)
  case Nil
  show ?case by (simp add: groups_by_def)
next
  case (snoc w ws)
  have none: "[] = filter (\<lambda>v. key v = key w) ws" if "key w \<notin> key ` set ws"
  proof -
    have "\<forall>v\<in>set ws. key v \<noteq> key w"
      using that by (metis image_eqI)
    then have "filter (\<lambda>v. key v = key w) ws = []"
      by (simp add: filter_empty_conv)
    then show ?thesis by simp
  qed
  show ?case
    using none by (auto simp: groups_by_snoc map_of_group_add snoc.IH)
qed

lemma fold_assoc_distinct:
  assumes "distinct (map fst m)"
  shows "fold (\<lambda>(k, g) acc. F g acc) m a = fold (\<lambda>k acc. F (the (map_of m k)) acc) (map fst m) a"
proof -
  have pt: "(case x of (k, g) \<Rightarrow> F g) = F (the (map_of m (fst x)))" if "x \<in> set m" for x
    using assms that by (cases x) simp
  have "fold (\<lambda>(k, g) acc. F g acc) m a = fold (\<lambda>x. F (the (map_of m (fst x)))) m a"
    by (rule fold_cong [OF refl refl]) (simp add: pt)
  also have "\<dots> = fold (\<lambda>k acc. F (the (map_of m k)) acc) (map fst m) a"
    by (simp add: fold_map comp_def)
  finally show ?thesis .
qed

lemma sum_groups_by:
  "sum_groups n (groups_by key ws) =
     fold (\<lambda>k total.
             dadd total
               (dmul (ddiv (of_nat (length (filter (\<lambda>w. key w = k) ws))) (of_nat n))
                     (of_nat (length (filter (\<lambda>w. key w = k) ws)))))
       (js_set (map key ws)) 0"
proof -
  let ?F = "\<lambda>(g::string list) total.
     dadd total (dmul (ddiv (of_nat (length g)) (of_nat n)) (of_nat (length g)))"
  have dist: "distinct (map fst (groups_by key ws))"
    by (simp add: groups_by_keys distinct_js_set)
  have "sum_groups n (groups_by key ws) = fold (\<lambda>(k, g) acc. ?F g acc) (groups_by key ws) 0"
    by (simp add: sum_groups_def)
  also have "\<dots> = fold (\<lambda>k acc. ?F (the (map_of (groups_by key ws) k)) acc)
                      (map fst (groups_by key ws)) 0"
    by (rule fold_assoc_distinct [OF dist])
  also have "\<dots> = fold (\<lambda>k acc. ?F (filter (\<lambda>w. key w = k) ws) acc) (js_set (map key ws)) 0"
    unfolding groups_by_keys
    by (rule fold_cong [OF refl refl]) (simp add: set_js_set map_of_groups_by)
  finally show ?thesis .
qed

lemma sum_groups_resultGroups:
  "sum_groups (length ws) (resultGroups guess ws) = expected_remaining_double guess ws"
proof -
  let ?key = "\<lambda>w. pattern_key (getResultPattern guess w)"
  let ?T = "\<lambda>g::string list.
     dmul (ddiv (of_nat (length g)) (of_nat (length ws))) (of_nat (length g))"
  have inj: "inj pattern_key"
    by (rule injI) (rule pattern_key_inj)
  have same: "filter (\<lambda>w. ?key w = pattern_key p) ws = pattern_group guess ws p" for p
    using pattern_key_inj by (auto simp: pattern_group_def intro: filter_cong)
  have "resultGroups guess ws = groups_by ?key ws"
    by (simp add: resultGroups_def groups_by_def)
  then have "sum_groups (length ws) (resultGroups guess ws)
      = fold (\<lambda>k total. dadd total (?T (filter (\<lambda>w. ?key w = k) ws))) (js_set (map ?key ws)) 0"
    by (simp add: sum_groups_by)
  also have "js_set (map ?key ws) = map pattern_key (js_set (map (getResultPattern guess) ws))"
    using js_set_map_inj [OF inj, of "map (getResultPattern guess) ws"] by (simp add: comp_def)
  also have "fold (\<lambda>k total. dadd total (?T (filter (\<lambda>w. ?key w = k) ws)))
               (map pattern_key (js_set (map (getResultPattern guess) ws))) 0
      = fold (\<lambda>p total. dadd total (?T (pattern_group guess ws p)))
          (js_set (map (getResultPattern guess) ws)) 0"
    by (simp add: fold_map comp_def same)
  finally show ?thesis by (simp add: expected_remaining_double_def)
qed

lemma fold_pair_split:
  "fold (\<lambda>x (a, b). (f x a, h x b)) xs (a0, b0) = (fold f xs a0, fold h xs b0)"
  by (induction xs arbitrary: a0 b0) simp_all

lemma calculateExpectedInformation_weights:
  "calculateExpectedInformation p
     = fold (\<lambda>c information. dadd information (symbol_weight_double c)) p 0"
  by (simp add: calculateExpectedInformation_def symbol_weight_double_def)

lemma groups_and_information_eq:
  "groups_and_information guess ws =
     (resultGroups guess ws,
      fold (\<lambda>answer total.
              dadd total
                (fold (\<lambda>c information. dadd information (symbol_weight_double c))
                   (getResultPattern guess answer) 0))
        ws 0)"
  unfolding groups_and_information_def resultGroups_def
  by (simp add: fold_pair_split calculateExpectedInformation_weights)

text \<open>
  Claim C3 as amended, expected remaining: with at most one candidate
  \<open>calculateExpectedRemainingWords\<close> returns the number of candidates; otherwise it returns
  \<open>Math.round(10 S) / 10\<close> in double arithmetic, where \<open>S\<close> is the sum in doubles of
  \<open>(|group| / |candidates|) * |group|\<close> over the pattern groups, taken in the order in which
  their patterns first occur among the candidates. This is the sum rounded to one decimal
  place, not the exact sum.
\<close>

theorem expected_remaining_rounded:
  "calculateExpectedRemainingWords guess s =
     (if length (possibleWords s) \<le> 1 then of_nat (length (possibleWords s))
      else ddiv (of_int \<lfloor>dmul (expected_remaining_double guess (possibleWords s)) 10 + 1 / 2\<rfloor>) 10)"
  by (simp add: calculateExpectedRemainingWords_def js_round_def sum_groups_resultGroups)

text \<open>
  Claim C4 as amended, score: with at most one candidate \<open>calculateExpectedValue\<close> is 0;
  otherwise it is the specification's formula evaluated in double arithmetic from left to
  right: the number of candidates minus the expected remaining, plus 1.5 for each distinct
  letter of the guess not yet tested, minus the number of repeated letters when the guess
  has fewer than five distinct letters and more than ten candidates remain, minus 3 for
  each distinct letter of the guess that is excluded, plus 0.8 times the average
  information. The expected remaining is the unrounded double sum over the pattern groups
  in order of first occurrence; the average information is the double sum over the
  candidates, in their order, of the pattern's weights (green 1.5, yellow 1.0, grey 0.4),
  divided by the number of candidates.
\<close>

theorem score_double_formula:
  "calculateExpectedValue guess s =
     (if length (possibleWords s) \<le> 1 then 0
      else score_formula_double guess (possibleWords s) (testedLetters s) (excludedLetters s))"
  by (simp add: calculateExpectedValue_def groups_and_information_eq sum_groups_resultGroups
      length_js_set length_filter_js_set score_formula_double_def avg_information_double_def
      Let_def)

section \<open>Properties of the session\<close>

lemma track_letter_possibleWords [simp]:
  "possibleWords (track_letter g r i s) = possibleWords s"
  by (simp add: track_letter_def Let_def)

lemma track_letter_known:
  "l \<in> knownLetters (track_letter g r i s) \<Longrightarrow>
     l \<in> knownLetters s \<or> (l = js_index g i \<and> yellow_or_green (js_index r i))"
  by (auto simp: track_letter_def Let_def split: if_splits)

lemma track_letter_excluded:
  "l \<in> excludedLetters (track_letter g r i s) \<Longrightarrow>
     l \<in> excludedLetters s \<or>
     (l = js_index g i \<and> js_index r i = Some Grey \<and> \<not> appearsElsewhere g r i)"
  by (auto simp: track_letter_def Let_def split: if_splits)

lemma fold_track_letter:
  "possibleWords (fold (track_letter g r) [0..<n] s) = possibleWords s"
  "l \<in> knownLetters (fold (track_letter g r) [0..<n] s) \<Longrightarrow>
     l \<in> knownLetters s \<or> (\<exists>i<n. l = js_index g i \<and> yellow_or_green (js_index r i))"
  "l \<in> excludedLetters (fold (track_letter g r) [0..<n] s) \<Longrightarrow>
     l \<in> excludedLetters s \<or>
     (\<exists>i<n. l = js_index g i \<and> js_index r i = Some Grey \<and> \<not> appearsElsewhere g r i)"
proof (induction n)
  case 0
  { case 1 show ?case by simp }
  { case 2 then show ?case by simp }
  { case 3 then show ?case by simp }
next
  case (Suc n)
  { case 1 show ?case using Suc.IH(1) by simp }
  { case 2 then show ?case using Suc.IH(2) track_letter_known [of l g r n]
      by (auto simp: less_Suc_eq) }
  { case 3 then show ?case using Suc.IH(3) track_letter_excluded [of l g r n]
      by (auto simp: less_Suc_eq) }
qed

lemma compatible_known:
  assumes c: "isWordCompatible w g r" and g: "length g = 5" and i: "i < 5"
    and yg: "yellow_or_green (js_index r i)"
  shows "includes_letter w (js_index g i)"
proof -
  from c i have ok: "position_ok w g r i"
    by (simp add: isWordCompatible_def list_all_iff)
  have gi: "js_index g i = Some (g ! i)" using g i by (simp add: js_index_def)
  from yg consider "js_index r i = Some Green" | "js_index r i = Some Yellow"
    by (auto simp: yellow_or_green_def)
  then show ?thesis
  proof cases
    case 1
    with ok have "js_index w i = Some (g ! i)" by (simp add: position_ok_def gi)
    then have "i < length w" "w ! i = g ! i" by (auto simp: js_index_def split: if_splits)
    then have "g ! i \<in> set w" by (metis nth_mem)
    then show ?thesis by (simp add: includes_letter_def gi)
  next
    case 2
    with ok show ?thesis by (simp add: position_ok_def)
  qed
qed

lemma compatible_excluded:
  assumes c: "isWordCompatible w g r" and i: "i < 5"
    and grey: "js_index r i = Some Grey" and ne: "\<not> appearsElsewhere g r i"
  shows "\<not> includes_letter w (js_index g i)"
proof -
  from c i have ok: "position_ok w g r i"
    by (simp add: isWordCompatible_def list_all_iff)
  have "\<not> hasYellowOrGreen g r (js_index g i)"
  proof
    assume "hasYellowOrGreen g r (js_index g i)"
    then obtain idx where idx: "idx < length r" "yellow_or_green (js_index r idx)"
        "js_index g idx = js_index g i"
      by (auto simp: hasYellowOrGreen_def list_ex_iff)
    with grey have "idx \<noteq> i" by (auto simp: yellow_or_green_def)
    with idx have "appearsElsewhere g r i"
      by (auto simp: appearsElsewhere_def list_ex_iff)
    with ne show False by simp
  qed
  with ok grey show ?thesis by (simp add: position_ok_def)
qed

lemma letters_consistent_submit:
  assumes "letters_consistent s"
  shows "letters_consistent (snd (submitGuess s))"
proof (cases "length (currentGuess s) \<noteq> 5 \<or> currentGuess s \<notin> set (allWords s)")
  case True
  then have "snd (submitGuess s) = s" by (auto simp: submitGuess_def)
  with assms show ?thesis by simp
next
  case False
  define g where "g = currentGuess s"
  define r where "r = currentResult s"
  define s1 where "s1 = s\<lparr>guessHistory := guessHistory s @ [(g, r)]\<rparr>"
  define s2 where "s2 = updateLetterTracking g r s1"
  from False have g: "length g = 5" by (simp add: g_def)
  from False have new: "snd (submitGuess s) = resetInput (filterWords g r s2)"
    by (simp add: submitGuess_def g_def r_def s1_def s2_def)
  have pw: "possibleWords s2 = possibleWords s"
    by (simp add: s2_def updateLetterTracking_def fold_track_letter(1) s1_def)
  have "includes_letter w l"
    if w: "w \<in> set (possibleWords s)" "isWordCompatible w g r" and l: "l \<in> knownLetters s2" for w l
  proof -
    from l have "l \<in> knownLetters s \<or> (\<exists>i<5. l = js_index g i \<and> yellow_or_green (js_index r i))"
      using fold_track_letter(2) [of l g r 5 s1] by (simp add: s2_def updateLetterTracking_def s1_def)
    then show ?thesis
      using assms w compatible_known [OF w(2) g] by (auto simp: letters_consistent_def)
  qed
  moreover have "\<not> includes_letter w l"
    if w: "w \<in> set (possibleWords s)" "isWordCompatible w g r" and l: "l \<in> excludedLetters s2" for w l
  proof -
    from l have "l \<in> excludedLetters s \<or>
        (\<exists>i<5. l = js_index g i \<and> js_index r i = Some Grey \<and> \<not> appearsElsewhere g r i)"
      using fold_track_letter(3) [of l g r 5 s1] by (simp add: s2_def updateLetterTracking_def s1_def)
    then show ?thesis
      using assms w compatible_excluded [OF w(2)] by (auto simp: letters_consistent_def)
  qed
  ultimately show ?thesis
    unfolding new letters_consistent_def
    by (simp add: resetInput_def filterWords_def pw)
qed

lemma letters_consistent_step:
  "letters_consistent s \<Longrightarrow> letters_consistent (step s a)"
proof (cases a)
  case (Submit g r)
  assume "letters_consistent s"
  then have "letters_consistent (s\<lparr>currentGuess := g, currentResult := r\<rparr>)"
    by (simp add: letters_consistent_def)
  then show ?thesis unfolding Submit step.simps by (rule letters_consistent_submit)
next
  case Reset
  then show ?thesis by (simp add: letters_consistent_def resetGame_def resetInput_def)
qed

lemma letters_consistent_run:
  "letters_consistent s \<Longrightarrow> letters_consistent (run s acts)"
  unfolding run_def
  by (induction acts arbitrary: s) (simp_all add: letters_consistent_step)

lemma letters_consistent_initial: "letters_consistent (initial answers allowed)"
  by (simp add: letters_consistent_def initial_def)

text \<open>
  Claim C8 as amended, letter-state disjointness: in every state reached from the
  initial state by submissions and resets in which at least one candidate remains, the
  known letters and the excluded letters are disjoint.
\<close>

theorem known_excluded_disjoint:
  assumes "possibleWords (run (initial answers allowed) acts) \<noteq> []"
  shows "knownLetters (run (initial answers allowed) acts)
           \<inter> excludedLetters (run (initial answers allowed) acts) = {}"
proof -
  let ?s = "run (initial answers allowed) acts"
  have inv: "letters_consistent ?s"
    by (rule letters_consistent_run [OF letters_consistent_initial])
  from assms obtain w where "w \<in> set (possibleWords ?s)" by (cases "possibleWords ?s") auto
  with inv show ?thesis by (auto simp: letters_consistent_def)
qed

text \<open>
  Claim C6, rejections never mutate state: a guess whose length is not five is rejected
  as \<open>InvalidLength\<close>, a five-letter guess outside the allowed vocabulary as
  \<open>WordNotAllowed\<close>, and in both cases the whole session (candidates, history, the three
  letter sets, the pending input) is returned unchanged.
\<close>

theorem rejection_keeps_state:
  "(length (currentGuess s) \<noteq> 5 \<longrightarrow> submitGuess s = (Some InvalidLength, s)) \<and>
   (length (currentGuess s) = 5 \<and> currentGuess s \<notin> set (allWords s)
      \<longrightarrow> submitGuess s = (Some WordNotAllowed, s))"
  by (simp add: submitGuess_def)

text \<open>
  Claim C7, monotonic narrowing: the candidates after \<open>filterWords\<close>, and after any
  \<open>submitGuess\<close>, are no more than before and all among those before.
\<close>

theorem monotonic_narrowing:
  "length (possibleWords (filterWords guess result s)) \<le> length (possibleWords s) \<and>
   set (possibleWords (filterWords guess result s)) \<subseteq> set (possibleWords s) \<and>
   length (possibleWords (snd (submitGuess s))) \<le> length (possibleWords s) \<and>
   set (possibleWords (snd (submitGuess s))) \<subseteq> set (possibleWords s)"
proof -
  have pw: "possibleWords (updateLetterTracking g r t) = possibleWords t" for g r t
    by (simp add: updateLetterTracking_def fold_track_letter(1))
  have f: "length (possibleWords (filterWords g r t)) \<le> length (possibleWords t)
         \<and> set (possibleWords (filterWords g r t)) \<subseteq> set (possibleWords t)" for g r t
    by (simp add: filterWords_def)
  have "possibleWords (snd (submitGuess s)) = possibleWords s
      \<or> possibleWords (snd (submitGuess s))
          = possibleWords (filterWords (currentGuess s) (currentResult s) s)"
    by (simp add: submitGuess_def resetInput_def filterWords_def pw)
  then show ?thesis using f [of guess result s] f [of "currentGuess s" "currentResult s" s]
    by auto
qed

text \<open>
  Claim C9, empty candidate set: with no candidate left \<open>findTopGuesses\<close> returns the
  empty list for every requested number, and \<open>updateRecommendations\<close> tells the user so:
  it shows NO WORDS with the reason that no possible word matches the constraints.
\<close>

theorem empty_candidates_signalled:
  assumes "possibleWords s = []"
  shows "findTopGuesses n s = [] \<and>
         recommendedWord (updateRecommendations s d) = ''NO WORDS'' \<and>
         recommendationReason (updateRecommendations s d)
           = Literal ''No possible words match your constraints. Check your inputs.''"
  using assms by (simp add: findTopGuesses_def updateRecommendations_def)

section \<open>Properties of the recommendation engine\<close>

lemma set_diffLetters:
  assumes "length w1 = 5" and "length w2 = 5"
  shows "set (diffLetters w1 w2) = Some ` distinguishing_letters w1 w2"
proof -
  have "set (diffLetters w1 w2)
      = (\<Union>i\<in>{0..<5}. if js_index w1 i \<noteq> js_index w2 i then {js_index w1 i, js_index w2 i} else {})"
    unfolding diffLetters_def set_js_set set_concat
    by (auto split: if_splits)
  also have "\<dots> = Some ` distinguishing_letters w1 w2"
    using assms by (auto simp: distinguishing_letters_def js_index_def image_iff split: if_splits)
  finally show ?thesis .
qed

lemma five_distinct_letters:
  "length w = 5 \<Longrightarrow> length (js_set w) = 5 \<longleftrightarrow> distinct w"
  by (metis card_distinct distinct_card length_js_set)

lemma pool_condition:
  assumes "length w1 = 5" and "length w2 = 5" and "length w = 5"
  shows "(list_ex (\<lambda>letter. array_includes w letter) (diffLetters w1 w2) \<and> length (js_set w) = 5)
       \<longleftrightarrow> ((\<exists>c\<in>set w. c \<in> distinguishing_letters w1 w2) \<and> distinct w)"
proof -
  have "list_ex (\<lambda>letter. array_includes w letter) (diffLetters w1 w2)
      \<longleftrightarrow> (\<exists>c\<in>set w. c \<in> distinguishing_letters w1 w2)"
    unfolding list_ex_iff set_diffLetters [OF assms(1,2)]
    by (auto simp: array_includes_def)
  then show ?thesis using five_distinct_letters [OF assms(3)] by simp
qed

text \<open>
  Claim C5, two-candidate pool: with exactly two candidates left, both and the whole
  allowed vocabulary of five letters, \<open>findDistinguishingWords\<close> is exactly the allowed
  words that hold a distinguishing letter and have pairwise distinct letters;
  \<open>findTopGuesses\<close> ranks that pool, and when the pool is empty it returns the two
  candidates themselves.
\<close>

theorem two_candidate_pool:
  assumes two: "possibleWords s = [word1, word2]"
    and len: "length word1 = 5" "length word2 = 5"
    and voc: "\<forall>w\<in>set (allWords s). length w = 5"
  shows "findDistinguishingWords s
           = filter (\<lambda>w. (\<exists>c\<in>set w. c \<in> distinguishing_letters word1 word2) \<and> distinct w)
               (allWords s)
       \<and> (findDistinguishingWords s = [] \<longrightarrow>
            findTopGuesses n s = [candidate_entry word1, candidate_entry word2]
            \<and> map word (findTopGuesses n s) = [word1, word2])
       \<and> (findDistinguishingWords s \<noteq> [] \<longrightarrow>
            findTopGuesses n s
              = take n (sort_key (\<lambda>r. - score r)
                          (map (detailed_entry s) (findDistinguishingWords s))))"
proof -
  have "findDistinguishingWords s
      = filter (\<lambda>w. list_ex (\<lambda>letter. array_includes w letter) (diffLetters word1 word2)
                     \<and> length (js_set w) = 5) (allWords s)"
    by (simp add: findDistinguishingWords_def two)
  also have "\<dots> = filter (\<lambda>w. (\<exists>c\<in>set w. c \<in> distinguishing_letters word1 word2) \<and> distinct w)
                     (allWords s)"
    using voc by (intro filter_cong refl pool_condition [OF len]) simp
  finally have pool: "findDistinguishingWords s
      = filter (\<lambda>w. (\<exists>c\<in>set w. c \<in> distinguishing_letters word1 word2) \<and> distinct w)
          (allWords s)" .
  have top: "findTopGuesses n s =
      (if findDistinguishingWords s = [] then map candidate_entry [word1, word2]
       else take n (sort_key (\<lambda>r. - score r)
                      (map (detailed_entry s) (findDistinguishingWords s))))"
    by (simp add: findTopGuesses_def two Let_def)
  show ?thesis using pool top by (simp add: candidate_entry_def)
qed

section \<open>Concrete sessions\<close>

lemmas pattern_eval = getResultPattern_def mark_green_def mark_yellow_def js_index_def upt_rec nth_Cons'
lemmas compat_eval = isWordCompatible_def position_ok_def count_ok_def hasYellowOrGreen_def
  guessCount_def wordCount_def yellow_or_green_def includes_letter_def js_index_def upt_rec nth_Cons'
lemmas submit_eval = run_def initial_def submitGuess_def updateLetterTracking_def track_letter_def
  appearsElsewhere_def filterWords_def resetInput_def yellow_or_green_def js_index_def upt_rec nth_Cons' Let_def

lemma floor_rat_numeral: "\<lfloor>(numeral a :: rat) / numeral b\<rfloor> = numeral a div numeral b"
  using floor_divide_of_int_eq [of "numeral a" "numeral b", where ?'a = rat] by simp

lemma ceiling_rat_numeral: "\<lceil>(numeral a :: rat) / numeral b\<rceil> = - (- numeral a div numeral b)"
  using floor_divide_of_int_eq [of "- numeral a" "numeral b", where ?'a = rat]
  by (simp add: ceiling_def)

lemmas double_eval = dadd_def dsub_def dmul_def ddiv_def fl_def ilog2_def round_even_def
  bitlen_def compute_floorlog floor_rat_numeral ceiling_rat_numeral Let_def

text \<open>
  The double arithmetic at the numbers of the scoring code: the literals 0.4 and 0.8, the
  information of a pattern (3.0999999999999996 for a green and four greys), and groups of
  19, 4 and 1 among 24 candidates, where the double sum 15.749999999999998 is rounded to
  15.7 and the exact sum 15.75 would give 15.8.
\<close>

lemma double_two_fifths: "fl (2 / 5) = 3602879701896397 / 9007199254740992"
  by (simp add: double_eval)

lemma double_four_fifths: "fl (4 / 5) = 3602879701896397 / 4503599627370496"
  by (simp add: double_eval)

lemma information_green_four_grey:
  "calculateExpectedInformation [Green, Grey, Grey, Grey, Grey]
     = 1745144855606067 / 562949953421312"
  by (simp add: calculateExpectedInformation_def double_eval)

lemma information_three_grey:
  "calculateExpectedInformation [Grey, Grey, Grey] = 1351079888211149 / 1125899906842624"
  by (simp add: calculateExpectedInformation_def double_eval)

lemma sum_groups_19_4_1:
  "sum_groups 24 [(k1, replicate 19 w), (k2, replicate 4 w), (k3, [w])]
     = 8866461766385663 / 562949953421312"
  by (simp add: sum_groups_def double_eval)

lemma rounded_19_4_1:
  "ddiv (of_int (js_round (dmul (8866461766385663 / 562949953421312) 10))) 10
     = 4419157134357299 / 281474976710656
   \<and> of_int \<lfloor>(19 / 24 * 19 + 4 / 24 * 4 + 1 / 24 * 1 :: rat) * 10 + 1 / 2\<rfloor> / (10 :: rat) = 79 / 5"
  by (simp add: js_round_def double_eval)

lemma pattern_AGAIN_ABOUT: "getResultPattern ''AGAIN'' ''ABOUT'' = [Green, Grey, Grey, Grey, Grey]"
  by (simp add: pattern_eval)
lemma pattern_AGAIN_ABOVE: "getResultPattern ''AGAIN'' ''ABOVE'' = [Green, Grey, Grey, Grey, Grey]"
  by (simp add: pattern_eval)
lemma pattern_AGAIN_ADMIT: "getResultPattern ''AGAIN'' ''ADMIT'' = [Green, Grey, Grey, Green, Grey]"
  by (simp add: pattern_eval)

lemma groups_AGAIN:
  "resultGroups ''AGAIN'' [''ABOUT'', ''ABOVE'', ''ADMIT'']
     = [(''greengreygreygreygrey'', [''ABOUT'', ''ABOVE'']), (''greengreygreygreengrey'', [''ADMIT''])]"
  by (simp add: resultGroups_def pattern_AGAIN_ABOUT pattern_AGAIN_ABOVE pattern_AGAIN_ADMIT pattern_key_def)

lemma sum_groups_AGAIN:
  "sum_groups (Suc (Suc (Suc 0))) (resultGroups ''AGAIN'' [''ABOUT'', ''ABOVE'', ''ADMIT''])
     = 3752999689475413 / 2251799813685248"
  by (simp add: groups_AGAIN sum_groups_def double_eval)

lemma rounded_AGAIN:
  "calculateExpectedRemainingWords ''AGAIN''
     (initial [''ABOUT'', ''ABOVE'', ''ADMIT''] [''ABOUT'', ''ABOVE'', ''ADMIT'', ''AGAIN''])
     = 7656119366529843 / 4503599627370496"
  by (simp add: calculateExpectedRemainingWords_def initial_def sum_groups_AGAIN js_round_def
      double_eval)

lemma expected_remaining_AGAIN:
  "expected_remaining ''AGAIN'' [''ABOUT'', ''ABOVE'', ''ADMIT''] = 5 / 3"
  by (simp add: expected_remaining_def pattern_group_def
      pattern_AGAIN_ABOUT pattern_AGAIN_ABOVE pattern_AGAIN_ADMIT)

text \<open>
  Claim C3 as stated fails: for the guess AGAIN and the candidates ABOUT, ABOVE, ADMIT
  the groups have sizes two and one, the sum is \<open>5 / 3\<close>, and
  \<open>calculateExpectedRemainingWords\<close> returns the double \<open>1.7\<close>, more than 0.03 away.
\<close>

theorem expected_remaining_exact_counterexample:
  "calculateExpectedRemainingWords ''AGAIN''
     (initial [''ABOUT'', ''ABOVE'', ''ADMIT''] [''ABOUT'', ''ABOVE'', ''ADMIT'', ''AGAIN''])
     = 7656119366529843 / 4503599627370496
   \<and> expected_remaining ''AGAIN'' [''ABOUT'', ''ABOVE'', ''ADMIT''] = 5 / 3
   \<and> calculateExpectedRemainingWords ''AGAIN''
       (initial [''ABOUT'', ''ABOVE'', ''ADMIT''] [''ABOUT'', ''ABOVE'', ''ADMIT'', ''AGAIN''])
     \<noteq> expected_remaining ''AGAIN'' [''ABOUT'', ''ABOVE'', ''ADMIT'']
   \<and> 3 / 100 < calculateExpectedRemainingWords ''AGAIN''
       (initial [''ABOUT'', ''ABOVE'', ''ADMIT''] [''ABOUT'', ''ABOVE'', ''ADMIT'', ''AGAIN''])
     - expected_remaining ''AGAIN'' [''ABOUT'', ''ABOVE'', ''ADMIT'']"
  by (simp add: rounded_AGAIN expected_remaining_AGAIN)

text \<open>
  Claim C3 as amended at the guess AGAIN, with three candidates and with one.
\<close>

theorem expected_remaining_rounded_witness:
  "ddiv (of_int \<lfloor>dmul (expected_remaining_double ''AGAIN'' [''ABOUT'', ''ABOVE'', ''ADMIT'']) 10
                   + 1 / 2\<rfloor>) 10
     = 7656119366529843 / 4503599627370496
   \<and> calculateExpectedRemainingWords ''AGAIN'' (initial [''ABOUT''] [''ABOUT'', ''AGAIN'']) = 1"
  using expected_remaining_rounded [of "''AGAIN''"
          "initial [''ABOUT'', ''ABOVE'', ''ADMIT''] [''ABOUT'', ''ABOVE'', ''ADMIT'', ''AGAIN'']"]
        expected_remaining_rounded [of "''AGAIN''" "initial [''ABOUT''] [''ABOUT'', ''AGAIN'']"]
  by (simp add: rounded_AGAIN) (simp add: initial_def)

lemma pattern_NIGHT_NOBLE: "getResultPattern ''NIGHT'' ''NOBLE'' = [Green, Grey, Grey, Grey, Grey]"
  by (simp add: pattern_eval)
lemma pattern_NIGHT_ADMIT: "getResultPattern ''NIGHT'' ''ADMIT'' = [Grey, Yellow, Grey, Grey, Green]"
  by (simp add: pattern_eval)

lemma information_NIGHT_ADMIT:
  "calculateExpectedInformation [Grey, Yellow, Grey, Grey, Green]
     = 8331659310635417 / 2251799813685248"
  by (simp add: calculateExpectedInformation_def double_eval)

lemma groups_and_information_NIGHT:
  "groups_and_information ''NIGHT'' [''NOBLE'', ''ADMIT'']
     = ([(''greengreygreygreygrey'', [''NOBLE'']), (''greyyellowgreygreygreen'', [''ADMIT''])],
        3828059683264921 / 562949953421312)"
  by (simp add: groups_and_information_def pattern_NIGHT_NOBLE pattern_NIGHT_ADMIT pattern_key_def
      information_green_four_grey information_NIGHT_ADMIT)
     (simp add: double_eval)

lemma js_set_NIGHT: "js_set ''NIGHT'' = ''NIGHT''"
  by simp


lemma sum_groups_NIGHT:
  "sum_groups (Suc (Suc 0))
     [(''greengreygreygreygrey'', [''NOBLE'']), (''greyyellowgreygreygreen'', [''ADMIT''])] = 1"
  by (simp add: sum_groups_def double_eval)

lemma score_NIGHT:
  "calculateExpectedValue ''NIGHT'' (initial [''NOBLE'', ''ADMIT''] [''NIGHT'', ''ACUTE''])
     = 394768654836695 / 35184372088832"
  by (simp add: calculateExpectedValue_def initial_def groups_and_information_NIGHT
      sum_groups_NIGHT double_four_fifths)
     (simp add: double_eval)


lemma card_NIGHT: "card (set ''NIGHT'') = 5"
  using distinct_card [of "''NIGHT''"] by simp

lemma expected_remaining_NIGHT: "expected_remaining ''NIGHT'' [''NOBLE'', ''ADMIT''] = 1"
  by (simp add: expected_remaining_def pattern_group_def pattern_NIGHT_NOBLE pattern_NIGHT_ADMIT)

lemma avg_information_NIGHT: "avg_information ''NIGHT'' [''NOBLE'', ''ADMIT''] = 17 / 5"
  by (simp add: avg_information_def symbol_weight_def pattern_NIGHT_NOBLE pattern_NIGHT_ADMIT)

lemma score_formula_NIGHT:
  "score_formula ''NIGHT'' [''NOBLE'', ''ADMIT''] {} {} = 561 / 50"
proof -
  have untested: "{c \<in> set g. Some c \<notin> ({} :: char option set)} = set g" for g
    by simp
  have excluded: "{c \<in> set g. Some c \<in> ({} :: char option set)} = {}" for g
    by simp
  show ?thesis
    unfolding score_formula_def untested excluded card_NIGHT
      expected_remaining_NIGHT avg_information_NIGHT
    by simp
qed

lemma double_score_formula_NIGHT: "fl (561 / 50) = 6316298477387121 / 562949953421312"
  by (simp add: double_eval)

text \<open>
  Claim C4 as stated fails: for the guess NIGHT and the candidates NOBLE, ADMIT (no
  letter tested or excluded) the formula's value is \<open>561 / 50\<close>, that is 11.22, and
  \<open>calculateExpectedValue\<close> returns the double 11.219999999999999, which is neither that
  value nor the double nearest to it.
\<close>

theorem score_exact_counterexample:
  "calculateExpectedValue ''NIGHT'' (initial [''NOBLE'', ''ADMIT''] [''NIGHT'', ''ACUTE''])
     = 394768654836695 / 35184372088832
   \<and> score_formula ''NIGHT'' [''NOBLE'', ''ADMIT''] {} {} = 561 / 50
   \<and> calculateExpectedValue ''NIGHT'' (initial [''NOBLE'', ''ADMIT''] [''NIGHT'', ''ACUTE''])
     \<noteq> score_formula ''NIGHT'' [''NOBLE'', ''ADMIT''] {} {}
   \<and> calculateExpectedValue ''NIGHT'' (initial [''NOBLE'', ''ADMIT''] [''NIGHT'', ''ACUTE''])
     \<noteq> fl (score_formula ''NIGHT'' [''NOBLE'', ''ADMIT''] {} {})"
  by (simp add: score_NIGHT score_formula_NIGHT double_score_formula_NIGHT)

text \<open>
  Claim C4 as amended at the guess NIGHT, with two candidates and with one.
\<close>

theorem score_double_formula_witness:
  "score_formula_double ''NIGHT'' [''NOBLE'', ''ADMIT''] {} {} = 394768654836695 / 35184372088832
   \<and> calculateExpectedValue ''NIGHT'' (initial [''NOBLE''] [''NIGHT'', ''ACUTE'']) = 0"
  using score_double_formula [of "''NIGHT''" "initial [''NOBLE'', ''ADMIT''] [''NIGHT'', ''ACUTE'']"]
        score_double_formula [of "''NIGHT''" "initial [''NOBLE''] [''NIGHT'', ''ACUTE'']"]
  by (simp add: score_NIGHT) (simp add: initial_def)

lemma pattern_ACUTE_NOBLE: "getResultPattern ''ACUTE'' ''NOBLE'' = [Grey, Grey, Grey, Grey, Green]"
  by (simp add: pattern_eval)
lemma pattern_ACUTE_ADMIT: "getResultPattern ''ACUTE'' ''ADMIT'' = [Green, Grey, Grey, Yellow, Grey]"
  by (simp add: pattern_eval)

lemma information_ACUTE_NOBLE:
  "calculateExpectedInformation [Grey, Grey, Grey, Grey, Green]
     = 6980579422424269 / 2251799813685248"
  by (simp add: calculateExpectedInformation_def double_eval)

lemma information_ACUTE_ADMIT:
  "calculateExpectedInformation [Green, Grey, Grey, Yellow, Grey]
     = 8331659310635417 / 2251799813685248"
  by (simp add: calculateExpectedInformation_def double_eval)

lemma groups_and_information_ACUTE:
  "groups_and_information ''ACUTE'' [''NOBLE'', ''ADMIT'']
     = ([(''greygreygreygreygreen'', [''NOBLE'']), (''greengreygreyyellowgrey'', [''ADMIT''])],
        7656119366529843 / 1125899906842624)"
  by (simp add: groups_and_information_def pattern_ACUTE_NOBLE pattern_ACUTE_ADMIT pattern_key_def
      information_ACUTE_NOBLE information_ACUTE_ADMIT)
     (simp add: double_eval)

lemma sum_groups_two_singletons:
  "sum_groups (Suc (Suc 0)) [(k1, [w1]), (k2, [w2])] = 1"
  by (simp add: sum_groups_def double_eval)

lemma score_ACUTE:
  "calculateExpectedValue ''ACUTE'' (initial [''NOBLE'', ''ADMIT''] [''NIGHT'', ''ACUTE''])
     = 6316298477387121 / 562949953421312"
  by (simp add: calculateExpectedValue_def initial_def groups_and_information_ACUTE
      sum_groups_two_singletons double_four_fifths)
     (simp add: double_eval)

text \<open>
  The ranking follows the double scores: ACUTE (11.22) comes before NIGHT
  (11.219999999999999), though the exact values of the formula are equal.
\<close>

lemma pool_NOBLE_ADMIT:
  "findDistinguishingWords (initial [''NOBLE'', ''ADMIT''] [''NIGHT'', ''ACUTE''])
     = [''NIGHT'', ''ACUTE'']"
  by (simp add: findDistinguishingWords_def initial_def diffLetters_def js_index_def upt_rec
      array_includes_def)

lemma ranking_NOBLE_ADMIT:
  "map word (findTopGuesses 8 (initial [''NOBLE'', ''ADMIT''] [''NIGHT'', ''ACUTE'']))
     = [''ACUTE'', ''NIGHT'']"
proof -
  let ?s = "initial [''NOBLE'', ''ADMIT''] [''NIGHT'', ''ACUTE'']"
  have two: "possibleWords ?s = [''NOBLE'', ''ADMIT'']" by (simp add: initial_def)
  have scores:
    "score (detailed_entry ?s ''NIGHT'') = 394768654836695 / 35184372088832"
    "score (detailed_entry ?s ''ACUTE'') = 6316298477387121 / 562949953421312"
    by (simp_all add: detailed_entry_def score_NIGHT score_ACUTE)
  have "findTopGuesses 8 ?s = [detailed_entry ?s ''ACUTE'', detailed_entry ?s ''NIGHT'']"
    by (simp add: findTopGuesses_def two pool_NOBLE_ADMIT Let_def scores)
  then show ?thesis by (simp add: detailed_entry_def)
qed

text \<open>
  Claim C2 at the guess EERIE against the answer THERE, for the letter E (three in
  the guess, two in the answer).
\<close>

theorem duplicate_letter_bound_witness:
  "length (filter (\<lambda>i. ''EERIE'' ! i = CHR ''E'' \<and>
             (getResultPattern ''EERIE'' ''THERE'' ! i = Green
              \<or> getResultPattern ''EERIE'' ''THERE'' ! i = Yellow))
           [0..<5]) \<le> count_list ''THERE'' CHR ''E''"
  using duplicate_letter_bound [of "''EERIE''" "''THERE''" "CHR ''E''"] by simp

text \<open>
  Claim C10 at CRANE against itself and against TRACE.
\<close>

theorem all_green_iff_equal_witness:
  "getResultPattern ''CRANE'' ''CRANE'' = [Green, Green, Green, Green, Green]
   \<and> getResultPattern ''CRANE'' ''TRACE'' \<noteq> [Green, Green, Green, Green, Green]"
  using all_green_iff_equal [of "''CRANE''" "''CRANE''"]
        all_green_iff_equal [of "''CRANE''" "''TRACE''"]
  by simp

text \<open>
  Claim C6 at the four-letter guess ABOU and at the guess ABOVE with the vocabulary
  ABOUT.
\<close>

theorem rejection_keeps_state_witness:
  "submitGuess ((initial [''ABOUT''] [''ABOUT''])\<lparr>currentGuess := ''ABOU''\<rparr>)
     = (Some InvalidLength, (initial [''ABOUT''] [''ABOUT''])\<lparr>currentGuess := ''ABOU''\<rparr>)
   \<and> submitGuess ((initial [''ABOUT''] [''ABOUT''])\<lparr>currentGuess := ''ABOVE''\<rparr>)
     = (Some WordNotAllowed, (initial [''ABOUT''] [''ABOUT''])\<lparr>currentGuess := ''ABOVE''\<rparr>)"
  using rejection_keeps_state [of "(initial [''ABOUT''] [''ABOUT''])\<lparr>currentGuess := ''ABOU''\<rparr>"]
        rejection_keeps_state [of "(initial [''ABOUT''] [''ABOUT''])\<lparr>currentGuess := ''ABOVE''\<rparr>"]
  by (simp add: initial_def)

lemma diffLetters_LIGHT_NIGHT:
  "diffLetters ''LIGHT'' ''NIGHT'' = [Some CHR ''L'', Some CHR ''N'']"
  by (simp add: diffLetters_def js_index_def upt_rec)
lemma distinguishing_LIGHT_NIGHT:
  "distinguishing_letters ''LIGHT'' ''NIGHT'' = {CHR ''L'', CHR ''N''}"
proof -
  have "Some ` distinguishing_letters ''LIGHT'' ''NIGHT'' = Some ` {CHR ''L'', CHR ''N''}"
    using set_diffLetters [of "''LIGHT''" "''NIGHT''"] by (simp add: diffLetters_LIGHT_NIGHT)
  then show ?thesis by (simp only: inj_image_eq_iff [OF inj_Some])
qed

lemma compatible_ABOUT_grey:
  "\<not> isWordCompatible ''ABOUT'' ''ABOUT'' [Grey, Grey, Grey, Grey, Grey]"
  by (simp add: compat_eval)

lemma contradictory_run:
  "run (initial [''ABOUT''] [''ABOUT''])
     [Submit ''ABOUT'' [Grey, Grey, Grey, Grey, Grey],
      Submit ''ABOUT'' [Green, Green, Green, Green, Green]]
   = \<lparr>answerWords = [''ABOUT''], allWords = [''ABOUT''], possibleWords = [],
      guessHistory = [(''ABOUT'', [Grey, Grey, Grey, Grey, Grey]),
                      (''ABOUT'', [Green, Green, Green, Green, Green])],
      currentGuess = [], currentResult = [Grey, Grey, Grey, Grey, Grey],
      testedLetters = {Some CHR ''A'', Some CHR ''B'', Some CHR ''O'', Some CHR ''U'', Some CHR ''T''},
      knownLetters = {Some CHR ''A'', Some CHR ''B'', Some CHR ''O'', Some CHR ''U'', Some CHR ''T''},
      excludedLetters = {Some CHR ''A'', Some CHR ''B'', Some CHR ''O'', Some CHR ''U'', Some CHR ''T''}\<rparr>"
  by (simp add: submit_eval compatible_ABOUT_grey) auto

text \<open>
  Claim C8 as stated fails: after ABOUT is submitted all grey and then all green, every
  letter of ABOUT is both known and excluded.
\<close>

theorem known_excluded_overlap_counterexample:
  "knownLetters (run (initial [''ABOUT''] [''ABOUT''])
      [Submit ''ABOUT'' [Grey, Grey, Grey, Grey, Grey],
       Submit ''ABOUT'' [Green, Green, Green, Green, Green]])
   \<inter> excludedLetters (run (initial [''ABOUT''] [''ABOUT''])
      [Submit ''ABOUT'' [Grey, Grey, Grey, Grey, Grey],
       Submit ''ABOUT'' [Green, Green, Green, Green, Green]])
   \<noteq> {}"
  by (simp add: contradictory_run)

text \<open>
  Claim C9 at the session emptied by two contradictory submissions of ABOUT.
\<close>

theorem empty_candidates_signalled_witness:
  "findTopGuesses 8 (run (initial [''ABOUT''] [''ABOUT''])
      [Submit ''ABOUT'' [Grey, Grey, Grey, Grey, Grey],
       Submit ''ABOUT'' [Green, Green, Green, Green, Green]]) = []
   \<and> recommendedWord (updateRecommendations (run (initial [''ABOUT''] [''ABOUT''])
      [Submit ''ABOUT'' [Grey, Grey, Grey, Grey, Grey],
       Submit ''ABOUT'' [Green, Green, Green, Green, Green]])
      \<lparr>recommendedWord = [], recommendationReason = Literal [], finalAnswers = None,
       topRecommendations = None\<rparr>) = ''NO WORDS''"
  using empty_candidates_signalled [of "run (initial [''ABOUT''] [''ABOUT''])
      [Submit ''ABOUT'' [Grey, Grey, Grey, Grey, Grey],
       Submit ''ABOUT'' [Green, Green, Green, Green, Green]]" 8
      "\<lparr>recommendedWord = [], recommendationReason = Literal [], finalAnswers = None,
       topRecommendations = None\<rparr>"]
  by (simp add: contradictory_run)

lemma compatible_ABOVE:
  "isWordCompatible ''ABOVE'' ''ABOUT'' [Green, Green, Green, Grey, Grey]"
  by (simp add: compat_eval)

lemma compatible_ABOUT:
  "\<not> isWordCompatible ''ABOUT'' ''ABOUT'' [Green, Green, Green, Grey, Grey]"
  by (simp add: compat_eval)

lemma consistent_run:
  "possibleWords (run (initial [''ABOUT'', ''ABOVE''] [''ABOUT'', ''ABOVE''])
     [Submit ''ABOUT'' [Green, Green, Green, Grey, Grey]]) = [''ABOVE'']"
  by (simp add: run_def initial_def submitGuess_def filterWords_def resetInput_def
      updateLetterTracking_def fold_track_letter(1) compatible_ABOVE compatible_ABOUT)

text \<open>
  Claim C8 as amended at a session with the candidates ABOUT and ABOVE, after ABOUT is
  submitted with its first three letters green: ABOVE remains.
\<close>

theorem known_excluded_disjoint_witness:
  "possibleWords (run (initial [''ABOUT'', ''ABOVE''] [''ABOUT'', ''ABOVE''])
     [Submit ''ABOUT'' [Green, Green, Green, Grey, Grey]]) \<noteq> []
   \<and> knownLetters (run (initial [''ABOUT'', ''ABOVE''] [''ABOUT'', ''ABOVE''])
       [Submit ''ABOUT'' [Green, Green, Green, Grey, Grey]])
     \<inter> excludedLetters (run (initial [''ABOUT'', ''ABOVE''] [''ABOUT'', ''ABOVE''])
       [Submit ''ABOUT'' [Green, Green, Green, Grey, Grey]]) = {}"
  using known_excluded_disjoint [of "[''ABOUT'', ''ABOVE'']" "[''ABOUT'', ''ABOVE'']"
     "[Submit ''ABOUT'' [Green, Green, Green, Grey, Grey]]"]
  by (simp add: consistent_run)

text \<open>
  Claim C7 at a session with two candidates.
\<close>

theorem monotonic_narrowing_witness:
  "length (possibleWords (filterWords ''ABOUT'' [Green, Green, Green, Grey, Grey]
      (initial [''ABOUT'', ''ABOVE''] [''ABOUT'', ''ABOVE'']))) \<le> 2"
  using monotonic_narrowing [of "''ABOUT''" "[Green, Green, Green, Grey, Grey]"
      "initial [''ABOUT'', ''ABOVE''] [''ABOUT'', ''ABOVE'']"]
  by (simp add: initial_def)

text \<open>
  Claim C5 at the candidates LIGHT and NIGHT: NOBLE is in the pool, LLAMA (a repeated
  letter) and CRATE (no distinguishing letter) are not; with only those two allowed the
  candidates themselves are returned.
\<close>

theorem two_candidate_pool_witness:
  "findDistinguishingWords
     (initial [''LIGHT'', ''NIGHT''] [''LIGHT'', ''NIGHT'', ''NOBLE'', ''LLAMA'', ''CRATE''])
     = [''LIGHT'', ''NIGHT'', ''NOBLE'']
   \<and> map word (findTopGuesses 8 (initial [''LIGHT'', ''NIGHT''] [''LLAMA'', ''CRATE'']))
     = [''LIGHT'', ''NIGHT'']"
proof -
  let ?s = "initial [''LIGHT'', ''NIGHT''] [''LIGHT'', ''NIGHT'', ''NOBLE'', ''LLAMA'', ''CRATE'']"
  let ?t = "initial [''LIGHT'', ''NIGHT''] [''LLAMA'', ''CRATE'']"
  let ?pool = "\<lambda>w. (\<exists>c\<in>set w. c \<in> distinguishing_letters ''LIGHT'' ''NIGHT'') \<and> distinct w"
  have s: "possibleWords ?s = [''LIGHT'', ''NIGHT'']" "\<forall>w\<in>set (allWords ?s). length w = 5"
    and t: "possibleWords ?t = [''LIGHT'', ''NIGHT'']" "\<forall>w\<in>set (allWords ?t). length w = 5"
    by (simp_all add: initial_def)
  have len: "length ''LIGHT'' = 5" "length ''NIGHT'' = 5" by simp_all
  have "findDistinguishingWords ?s = filter ?pool (allWords ?s)"
    using two_candidate_pool [OF s(1) len s(2), of 8] by (rule conjunct1)
  also have "\<dots> = [''LIGHT'', ''NIGHT'', ''NOBLE'']"
    by (simp add: initial_def distinguishing_LIGHT_NIGHT)
  finally have first: "findDistinguishingWords ?s = [''LIGHT'', ''NIGHT'', ''NOBLE'']" .
  have "findDistinguishingWords ?t = filter ?pool (allWords ?t)"
    using two_candidate_pool [OF t(1) len t(2), of 8] by (rule conjunct1)
  also have "\<dots> = []"
    by (simp add: initial_def distinguishing_LIGHT_NIGHT)
  finally have "findDistinguishingWords ?t = []" .
  moreover have "findDistinguishingWords ?t = [] \<longrightarrow>
      findTopGuesses 8 ?t = [candidate_entry ''LIGHT'', candidate_entry ''NIGHT'']
      \<and> map word (findTopGuesses 8 ?t) = [''LIGHT'', ''NIGHT'']"
    using two_candidate_pool [OF t(1) len t(2), of 8] by blast
  ultimately have "map word (findTopGuesses 8 ?t) = [''LIGHT'', ''NIGHT'']" by blast
  with first show ?thesis by blast
qed

end
